theory Spec2Isabelle
  imports Complex_Main "HOL-Library.Multiset"
begin

section \<open>fast-eci: a cheap inertial to Earth-fixed transform, checked against the exact one\<close>

text \<open>
  The program (\<^verbatim>\<open>src/main.py\<close>) compares for equality only the offsets of its test
  points from their reference epoch: their text is the key of the dictionary of statistics.
  The arithmetic that produces them, the product \<^verbatim>\<open>float(i) * testStep\<close> and the date
  arithmetic of \<^verbatim>\<open>AbsoluteDate\<close>, is therefore carried out as the program does it, in
  binary64 with every operation rounded to nearest. Everything else that the program
  computes in floating point (the geometry, the statistics, the sums of elapsed times) is
  embedded over exact real arithmetic. The orbit propagator, the frame provider and the
  wall clock are parameters of the functions that call them, and a call of the propagator
  or of the frame provider is taken to succeed. The vector, rotation and transform
  primitives of the libraries are written out, restricted to position and velocity (the
  program never reads an acceleration); of their exceptions, the two that the program can
  reach by its arguments, a zero axis and a zero vector in an angle, are kept.
\<close>

subsection \<open>Errors\<close>

datatype error =
    ZERO_NORM                    \<comment> \<open>\<^verbatim>\<open>Vector3D.angle\<close> on a vector of norm 0\<close>
  | ZERO_NORM_FOR_ROTATION_AXIS  \<comment> \<open>\<^verbatim>\<open>Rotation(axis, angle, convention)\<close> on an axis of norm 0\<close>
  | ZeroDivisionError            \<comment> \<open>Python's float division by zero\<close>

subsection \<open>Binary64 arithmetic\<close>

text \<open>
  A double is represented by the real number it stands for. \<open>binary64 x\<close> is the double
  nearest to \<open>x\<close>, with ties going to the even significand: 53 bits of significand above
  the smallest normal number, multiples of \<open>2 ^ -1074\<close> below it. An operation of the program
  on doubles is the exact operation followed by \<open>binary64\<close>. Infinities, NaN and the sign
  of zero are not represented; the program reaches none of them with durations that a
  double can hold.
\<close>

definition pow2 :: "int \<Rightarrow> real" where
  "pow2 e = (if 0 \<le> e then 2 ^ nat e else 1 / 2 ^ nat (- e))"

definition roundHalfEven :: "real \<Rightarrow> int" where
  "roundHalfEven x =
     (let f = \<lfloor>x\<rfloor>; r = x - of_int f
      in if r < 1 / 2 then f
         else if 1 / 2 < r then f + 1
         else if even f then f else f + 1)"

definition binary64 :: "real \<Rightarrow> real" where
  "binary64 x =
     (if x = 0 then 0
      else
        let q = max (\<lfloor>log 2 \<bar>x\<bar>\<rfloor> - 52) (- 1074)
        in of_int (roundHalfEven (x / pow2 q)) * pow2 q)"

subsection \<open>Dates\<close>

text \<open>
  An \<^verbatim>\<open>AbsoluteDate\<close> is a whole number of seconds and a double for the rest. Shifting a
  date adds the shift to the rest, recovers what the addition has rounded away, and moves
  the whole seconds of the sum to the first field. The duration between two dates is the
  difference of the whole seconds, as a double, plus the difference of the rests.
\<close>

record absoluteDate =
  epoch :: int
  offset :: real

definition shiftedBy :: "absoluteDate \<Rightarrow> real \<Rightarrow> absoluteDate" where
  "shiftedBy since elapsedDuration =
     (let sum = binary64 (offset since + elapsedDuration);
          oPrime = binary64 (sum - elapsedDuration);
          dPrime = binary64 (sum - oPrime);
          deltaO = binary64 (offset since - oPrime);
          deltaD = binary64 (elapsedDuration - dPrime);
          residual = binary64 (deltaO + deltaD);
          dl = \<lfloor>sum\<rfloor>;
          regularOffset = binary64 (binary64 (sum - binary64 (of_int dl)) + residual)
      in if regularOffset \<ge> 0 then
           \<lparr>epoch = epoch since + dl, offset = regularOffset\<rparr>
         else
           \<lparr>epoch = epoch since + dl - 1, offset = binary64 (1 + regularOffset)\<rparr>)"

definition durationFrom :: "absoluteDate \<Rightarrow> absoluteDate \<Rightarrow> real" where
  "durationFrom d instant =
     binary64 (binary64 (of_int (epoch d - epoch instant))
               + binary64 (offset d - offset instant))"

definition ARBITRARY_EPOCH :: absoluteDate where
  "ARBITRARY_EPOCH = \<lparr>epoch = 0, offset = 0\<rparr>"

subsection \<open>Vectors\<close>

record vector3D =
  getX :: real
  getY :: real
  getZ :: real

definition ZERO :: vector3D where
  "ZERO = \<lparr>getX = 0, getY = 0, getZ = 0\<rparr>"

definition PLUS_K :: vector3D where
  "PLUS_K = \<lparr>getX = 0, getY = 0, getZ = 1\<rparr>"

definition add :: "vector3D \<Rightarrow> vector3D \<Rightarrow> vector3D" where
  "add u v = \<lparr>getX = getX u + getX v, getY = getY u + getY v, getZ = getZ u + getZ v\<rparr>"

definition subtract :: "vector3D \<Rightarrow> vector3D \<Rightarrow> vector3D" where
  "subtract u v = \<lparr>getX = getX u - getX v, getY = getY u - getY v, getZ = getZ u - getZ v\<rparr>"

definition getNorm :: "vector3D \<Rightarrow> real" where
  "getNorm v = sqrt (getX v * getX v + getY v * getY v + getZ v * getZ v)"

definition dotProduct :: "vector3D \<Rightarrow> vector3D \<Rightarrow> real" where
  "dotProduct u v = getX u * getX v + getY u * getY v + getZ u * getZ v"

definition crossProduct :: "vector3D \<Rightarrow> vector3D \<Rightarrow> vector3D" where
  "crossProduct u v =
     \<lparr>getX = getY u * getZ v - getZ u * getY v,
      getY = getZ u * getX v - getX u * getZ v,
      getZ = getX u * getY v - getY u * getX v\<rparr>"

definition distance :: "vector3D \<Rightarrow> vector3D \<Rightarrow> real" where
  "distance u v =
     (let dx = getX v - getX u; dy = getY v - getY u; dz = getZ v - getZ u
      in sqrt (dx * dx + dy * dy + dz * dz))"

text \<open>
  \<^verbatim>\<open>Vector3D.angle\<close>: raises on a zero norm; near alignment the angle is taken from the
  sine (the norm of the cross product), elsewhere from the cosine.
\<close>

definition angle :: "vector3D \<Rightarrow> vector3D \<Rightarrow> error + real" where
  "angle v1 v2 =
     (let normProduct = getNorm v1 * getNorm v2
      in if normProduct = 0 then Inl ZERO_NORM
         else
           let dot = dotProduct v1 v2;
               threshold = normProduct * (9999 / 10000)
           in if dot < - threshold \<or> dot > threshold then
                let v3 = crossProduct v1 v2
                in if dot \<ge> 0 then Inr (arcsin (getNorm v3 / normProduct))
                   else Inr (pi - arcsin (getNorm v3 / normProduct))
              else Inr (arccos (dot / normProduct)))"

definition toDegrees :: "real \<Rightarrow> real" where
  "toDegrees a = a * 180 / pi"

subsection \<open>Rotations\<close>

datatype rotationConvention = VECTOR_OPERATOR | FRAME_TRANSFORM

text \<open>A rotation is held as a quaternion, as in the library.\<close>

record rotation =
  q0 :: real
  q1 :: real
  q2 :: real
  q3 :: real

definition IDENTITY_ROTATION :: rotation where
  "IDENTITY_ROTATION = \<lparr>q0 = 1, q1 = 0, q2 = 0, q3 = 0\<rparr>"

text \<open>\<^verbatim>\<open>Rotation(axis, angle, convention)\<close>.\<close>

definition Rotation :: "vector3D \<Rightarrow> real \<Rightarrow> rotationConvention \<Rightarrow> error + rotation" where
  "Rotation axis a convention =
     (let norm = getNorm axis
      in if norm = 0 then Inl ZERO_NORM_FOR_ROTATION_AXIS
         else
           let halfAngle = (if convention = VECTOR_OPERATOR then - (1 / 2) * a else (1 / 2) * a);
               coeff = sin halfAngle / norm
           in Inr \<lparr>q0 = cos halfAngle,
                   q1 = coeff * getX axis,
                   q2 = coeff * getY axis,
                   q3 = coeff * getZ axis\<rparr>)"

text \<open>\<^verbatim>\<open>Rotation.applyTo(Vector3D)\<close>.\<close>

definition applyTo :: "rotation \<Rightarrow> vector3D \<Rightarrow> vector3D" where
  "applyTo r u =
     (let x = getX u; y = getY u; z = getZ u;
          s = q1 r * x + q2 r * y + q3 r * z
      in \<lparr>getX = 2 * (q0 r * (x * q0 r - (q2 r * z - q3 r * y)) + s * q1 r) - x,
          getY = 2 * (q0 r * (y * q0 r - (q3 r * x - q1 r * z)) + s * q2 r) - y,
          getZ = 2 * (q0 r * (z * q0 r - (q1 r * y - q2 r * x)) + s * q3 r) - z\<rparr>)"

subsection \<open>States and transforms\<close>

record pvCoordinates =
  getPosition :: vector3D
  getVelocity :: vector3D

definition PV_ZERO :: pvCoordinates where
  "PV_ZERO = \<lparr>getPosition = ZERO, getVelocity = ZERO\<rparr>"

record angularCoordinates =
  getRotation :: rotation
  getRotationRate :: vector3D

text \<open>
  A transform: its date, the translation and its rate (\<open>cartesian\<close>), the rotation and its
  rate (\<open>angular\<close>).
\<close>

record transform =
  getDate :: absoluteDate
  cartesian :: pvCoordinates
  angular :: angularCoordinates

definition IDENTITY :: transform where
  "IDENTITY =
     \<lparr>getDate = ARBITRARY_EPOCH,
      cartesian = PV_ZERO,
      angular = \<lparr>getRotation = IDENTITY_ROTATION, getRotationRate = ZERO\<rparr>\<rparr>"

text \<open>\<^verbatim>\<open>Transform(date, rotation)\<close>: a pure rotation, with no translation and no rate.\<close>

definition Transform :: "absoluteDate \<Rightarrow> rotation \<Rightarrow> transform" where
  "Transform date r =
     \<lparr>getDate = date,
      cartesian = PV_ZERO,
      angular = \<lparr>getRotation = r, getRotationRate = ZERO\<rparr>\<rparr>"

text \<open>
  \<^verbatim>\<open>Transform.transformPVCoordinates\<close>: translate, then rotate, and take the rotation
  rate off the velocity.
\<close>

definition transformPVCoordinates :: "transform \<Rightarrow> pvCoordinates \<Rightarrow> pvCoordinates" where
  "transformPVCoordinates t pv =
     (let p = add (getPosition pv) (getPosition (cartesian t));
          v = add (getVelocity pv) (getVelocity (cartesian t));
          transformedP = applyTo (getRotation (angular t)) p;
          crossP = crossProduct (getRotationRate (angular t)) transformedP;
          transformedV = subtract (applyTo (getRotation (angular t)) v) crossP
      in \<lparr>getPosition = transformedP, getVelocity = transformedV\<rparr>)"

definition WGS84_EARTH_ANGULAR_VELOCITY :: real where
  "WGS84_EARTH_ANGULAR_VELOCITY = 7292115 / 10 ^ 11"

subsection \<open>checkSample: the estimator (lines 83 to 91)\<close>

text \<open>
  \<open>fixedTx\<close> starts as the identity and is replaced by the rotation about \<open>+K\<close> when the
  offset is positive; the estimate applies the baseline first and \<open>fixedTx\<close> second.
\<close>

definition fixedTx :: "absoluteDate \<Rightarrow> real \<Rightarrow> error + transform" where
  "fixedTx point deltaTime =
     (if deltaTime > 0 then
        (case Rotation PLUS_K (deltaTime * WGS84_EARTH_ANGULAR_VELOCITY) FRAME_TRANSFORM of
           Inl e \<Rightarrow> Inl e
         | Inr r \<Rightarrow> Inr (Transform point r))
      else Inr IDENTITY)"

definition estimate ::
  "transform \<Rightarrow> absoluteDate \<Rightarrow> real \<Rightarrow> pvCoordinates \<Rightarrow> error + pvCoordinates" where
  "estimate baselineInertialToFixed point deltaTime inertialPv =
     (case fixedTx point deltaTime of
        Inl e \<Rightarrow> Inl e
      | Inr tx \<Rightarrow>
          let tmp = transformPVCoordinates baselineInertialToFixed inertialPv
          in Inr (transformPVCoordinates tx tmp))"

subsection \<open>checkSample: one test point (lines 78 to 127)\<close>

datatype frame = GCRF | EME2000 | ITRF | TEME

text \<open>The data context, as far as the program uses it: the transform between two frames at a date.\<close>

record dataContext =
  getTransformTo :: "frame \<Rightarrow> frame \<Rightarrow> absoluteDate \<Rightarrow> transform"

text \<open>What the program prints, one constructor for each \<^verbatim>\<open>print\<close> of the source.\<close>

datatype line =
    TimePoint absoluteDate
  | DeltaFromEpoch real
  | PosErrorLine real
  | VelMagErrorLine real
  | VelAngErrorLine real
  | CheckPosError real
  | CheckVelMagError real
  | CheckVelAngError real
  | DeltaTimeLine real
  | PosErrM "real option" "real option"
  | VelErrMS "real option" "real option"
  | VelErrDeg "real option" "real option"
  | Blank
  | TotalTime
  | HighFidelity real
  | Estimated real
  | PercentImprovement real

text \<open>
  The outside world: \<open>tick\<close> counts the calls of \<^verbatim>\<open>time.time()\<close> made so far (the
  \<open>k\<close>-th call returns \<open>clock k\<close>), \<open>stdout\<close> is what has been printed.
\<close>

record io =
  tick :: nat
  stdout :: "line list"

record sampleResult =
  deltaTime :: real
  posError :: real
  velMagError :: real
  velAngError :: real

text \<open>
  The body of the loop. It yields the record appended to \<open>results\<close>, the two elapsed
  times added to \<open>estTime\<close> and \<open>actTime\<close>, and the world after it.
\<close>

definition testPoint ::
  "(nat \<Rightarrow> real) \<Rightarrow> (absoluteDate \<Rightarrow> frame \<Rightarrow> pvCoordinates) \<Rightarrow> dataContext \<Rightarrow> frame \<Rightarrow> frame \<Rightarrow>
   transform \<Rightarrow> absoluteDate \<Rightarrow> bool \<Rightarrow> absoluteDate \<Rightarrow> io \<Rightarrow>
   error + (sampleResult \<times> real \<times> real \<times> io)" where
  "testPoint clock pvProv context inertialFrame ecef baselineInertialToFixed date verb point w =
     (let inertialPv = pvProv point inertialFrame;
          fixedPv = pvProv point ecef;
          dT = durationFrom point date;
          eStart = clock (tick w)
      in case estimate baselineInertialToFixed point dT inertialPv of
           Inl e \<Rightarrow> Inl e
         | Inr estimatedFixedPv \<Rightarrow>
             let eStop = clock (tick w + 1);
                 aStart = clock (tick w + 2);
                 actualTx = getTransformTo context inertialFrame ecef point;
                 actualFixedPv = transformPVCoordinates actualTx inertialPv;
                 aStop = clock (tick w + 3);
                 deltaPosMag = distance (getPosition fixedPv) (getPosition estimatedFixedPv);
                 deltaVelMag = distance (getVelocity fixedPv) (getVelocity estimatedFixedPv)
             in (case angle (getVelocity fixedPv) (getVelocity estimatedFixedPv) of
                  Inl e \<Rightarrow> Inl e
                | Inr a1 \<Rightarrow>
                    let deltaVelAng = toDegrees a1;
                        deltaActPosMag = distance (getPosition fixedPv) (getPosition actualFixedPv);
                        deltaActVelMag = distance (getVelocity fixedPv) (getVelocity actualFixedPv)
                    in (case angle (getVelocity fixedPv) (getVelocity estimatedFixedPv) of
                         Inl e \<Rightarrow> Inl e
                       | Inr a2 \<Rightarrow>
                           let deltaActVelAng = toDegrees a2;
                               printed =
                                 (if verb then
                                    [TimePoint date,
                                     DeltaFromEpoch dT,
                                     PosErrorLine deltaPosMag,
                                     VelMagErrorLine deltaVelMag,
                                     VelAngErrorLine deltaVelAng,
                                     CheckPosError deltaActPosMag,
                                     CheckVelMagError deltaActVelMag,
                                     CheckVelAngError deltaActVelAng]
                                  else [])
                           in Inr (\<lparr>deltaTime = dT,
                                    posError = deltaPosMag,
                                    velMagError = deltaVelMag,
                                    velAngError = deltaVelAng\<rparr>,
                                   eStop - eStart,
                                   aStop - aStart,
                                   \<lparr>tick = tick w + 4, stdout = stdout w @ printed\<rparr>))))"

subsection \<open>checkSample: the loop and the function (lines 64 to 129)\<close>

fun checkLoop ::
  "(nat \<Rightarrow> real) \<Rightarrow> (absoluteDate \<Rightarrow> frame \<Rightarrow> pvCoordinates) \<Rightarrow> dataContext \<Rightarrow> frame \<Rightarrow> frame \<Rightarrow>
   transform \<Rightarrow> absoluteDate \<Rightarrow> bool \<Rightarrow> absoluteDate list \<Rightarrow>
   sampleResult list \<times> real \<times> real \<times> io \<Rightarrow>
   error + (sampleResult list \<times> real \<times> real \<times> io)" where
  "checkLoop clock pvProv context inertialFrame ecef baseline date verb [] acc = Inr acc"
| "checkLoop clock pvProv context inertialFrame ecef baseline date verb (point # rest)
     (results, estTime, actTime, w) =
     (case testPoint clock pvProv context inertialFrame ecef baseline date verb point w of
        Inl e \<Rightarrow> Inl e
      | Inr (r, e, a, w') \<Rightarrow>
          checkLoop clock pvProv context inertialFrame ecef baseline date verb rest
            (results @ [r], estTime + e, actTime + a, w'))"

text \<open>\<^verbatim>\<open>range(0, numTests)\<close> is \<open>[0..numTests - 1]\<close>, empty when \<open>numTests \<le> 0\<close>.\<close>

definition checkSample ::
  "(nat \<Rightarrow> real) \<Rightarrow> absoluteDate \<Rightarrow> (absoluteDate \<Rightarrow> frame \<Rightarrow> pvCoordinates) \<Rightarrow> dataContext \<Rightarrow>
   frame option \<Rightarrow> int \<Rightarrow> real \<Rightarrow> bool \<Rightarrow> io \<Rightarrow>
   error + (sampleResult list \<times> real \<times> real \<times> io)" where
  "checkSample clock date pvProv context inertialFrameArg numTests testStep verb w =
     (let inertialFrame = (case inertialFrameArg of None \<Rightarrow> GCRF | Some f \<Rightarrow> f);
          ecef = ITRF;
          baselineInertialToFixed = getTransformTo context inertialFrame ecef date;
          testPoints =
            map (\<lambda>i. shiftedBy date (binary64 (binary64 (real_of_int i) * testStep)))
              [0..numTests - 1]
      in checkLoop clock pvProv context inertialFrame ecef baselineInertialToFixed date verb
           testPoints ([], 0, 0, w))"

subsection \<open>main: statistics per offset (lines 185 to 210)\<close>

text \<open>
  A \<^verbatim>\<open>DescriptiveStatistics\<close> keeps the values it was given. The mean and the standard
  deviation of no value are NaN, written \<open>None\<close>; the standard deviation of one value is 0.
\<close>

type_synonym descriptiveStatistics = "real list"

definition DescriptiveStatistics :: "real list \<Rightarrow> descriptiveStatistics" where
  "DescriptiveStatistics initialValues = initialValues"

definition addValue :: "real \<Rightarrow> descriptiveStatistics \<Rightarrow> descriptiveStatistics" where
  "addValue v ds = ds @ [v]"

definition getN :: "descriptiveStatistics \<Rightarrow> nat" where
  "getN ds = length ds"

definition getMean :: "descriptiveStatistics \<Rightarrow> real option" where
  "getMean ds = (if getN ds = 0 then None else Some (sum_list ds / real (getN ds)))"

definition getVariance :: "descriptiveStatistics \<Rightarrow> real option" where
  "getVariance ds =
     (if getN ds = 0 then None
      else if getN ds = 1 then Some 0
      else
        let m = sum_list ds / real (getN ds)
        in Some (sum_list (map (\<lambda>v. (v - m) * (v - m)) ds) / (real (getN ds) - 1)))"

definition getStandardDeviation :: "descriptiveStatistics \<Rightarrow> real option" where
  "getStandardDeviation ds =
     (if getN ds > 0 then
        (if getN ds > 1 then map_option sqrt (getVariance ds) else Some 0)
      else None)"

record offsetStatistics =
  statDeltaTime :: real
  statPosError :: descriptiveStatistics
  statVelMagError :: descriptiveStatistics
  statVelAngError :: descriptiveStatistics

text \<open>
  The dictionary \<open>results\<close> keeps its keys in the order of their first insertion. The key
  \<^verbatim>\<open>str(d['deltaTime'])\<close> is represented by the number itself: two numbers have the
  same text exactly when they are equal.
\<close>

type_synonym resultsDict = "(real \<times> offsetStatistics) list"

fun setitem :: "real \<Rightarrow> offsetStatistics \<Rightarrow> resultsDict \<Rightarrow> resultsDict" where
  "setitem k v [] = [(k, v)]"
| "setitem k v ((k', v') # rest) =
     (if k' = k then (k, v) # rest else (k', v') # setitem k v rest)"

definition addSample :: "sampleResult \<Rightarrow> resultsDict \<Rightarrow> resultsDict" where
  "addSample d results =
     (let key = deltaTime d
      in case map_of results key of
           None \<Rightarrow>
             setitem key
               \<lparr>statDeltaTime = deltaTime d,
                statPosError = DescriptiveStatistics [posError d],
                statVelMagError = DescriptiveStatistics [velMagError d],
                statVelAngError = DescriptiveStatistics [velAngError d]\<rparr>
               results
         | Some r \<Rightarrow>
             setitem key
               (r\<lparr>statPosError := addValue (posError d) (statPosError r),
                  statVelMagError := addValue (velMagError d) (statVelMagError r),
                  statVelAngError := addValue (velAngError d) (statVelAngError r)\<rparr>)
               results)"

text \<open>\<^verbatim>\<open>for d in data: ...\<close>\<close>

fun aggregate :: "sampleResult list \<Rightarrow> resultsDict \<Rightarrow> resultsDict" where
  "aggregate [] results = results"
| "aggregate (d # data) results = aggregate data (addSample d results)"

subsection \<open>main: the report (lines 212 to 222)\<close>

definition reportLines :: "offsetStatistics \<Rightarrow> line list" where
  "reportLines r =
     [DeltaTimeLine (statDeltaTime r),
      PosErrM (getMean (statPosError r)) (getStandardDeviation (statPosError r)),
      VelErrMS (getMean (statVelMagError r)) (getStandardDeviation (statVelMagError r)),
      VelErrDeg (getMean (statVelAngError r)) (getStandardDeviation (statVelAngError r))]"

text \<open>The lines printed for the buckets, in the order of the dictionary (lines 212 to 216).\<close>

definition reportBody :: "resultsDict \<Rightarrow> line list" where
  "reportBody results = concat (map (\<lambda>r. reportLines r) (map snd results))"

text \<open>
  The last \<^verbatim>\<open>print\<close> divides by \<open>actualTime\<close>; Python raises when it is zero. A run
  that raises is represented by its error alone: what it had printed before is not kept.
\<close>

definition report :: "resultsDict \<Rightarrow> real \<Rightarrow> real \<Rightarrow> io \<Rightarrow> error + io" where
  "report results estimateTime actualTime w =
     (let printed =
            reportBody results
            @ [Blank, TotalTime, HighFidelity actualTime, Estimated estimateTime]
      in if actualTime = 0 then Inl ZeroDivisionError
         else
           Inr (w\<lparr>stdout := stdout w @ printed
                     @ [PercentImprovement (100 * (actualTime - estimateTime) / actualTime)]\<rparr>))"

subsection \<open>main (lines 131 to 222)\<close>

record args =
  sample_points :: int
  step :: real
  verbose :: bool
  inertial_frame :: string
  tests_per_sample :: int
  test_step :: real

fun mainLoop ::
  "(nat \<Rightarrow> real) \<Rightarrow> (absoluteDate \<Rightarrow> frame \<Rightarrow> pvCoordinates) \<Rightarrow> dataContext \<Rightarrow> args \<Rightarrow> frame \<Rightarrow>
   absoluteDate list \<Rightarrow> resultsDict \<times> real \<times> real \<times> io \<Rightarrow>
   error + (resultsDict \<times> real \<times> real \<times> io)" where
  "mainLoop clock propagator context a inertialFrame [] acc = Inr acc"
| "mainLoop clock propagator context a inertialFrame (date # rest)
     (results, estimateTime, actualTime, w) =
     (case checkSample clock date propagator context (Some inertialFrame)
             (tests_per_sample a) (test_step a) (verbose a) w of
        Inl e \<Rightarrow> Inl e
      | Inr (data, eT, aT, w') \<Rightarrow>
          mainLoop clock propagator context a inertialFrame rest
            (aggregate data results, estimateTime + eT, actualTime + aT, w'))"

text \<open>
  \<open>tleDate\<close> is the epoch of the element set that was loaded, \<open>propagator\<close> the orbit
  built from it.
\<close>

definition main ::
  "(nat \<Rightarrow> real) \<Rightarrow> absoluteDate \<Rightarrow> (absoluteDate \<Rightarrow> frame \<Rightarrow> pvCoordinates) \<Rightarrow> dataContext \<Rightarrow>
   args \<Rightarrow> io \<Rightarrow> error + io" where
  "main clock tleDate propagator context a w =
     (let times =
            map (\<lambda>i. shiftedBy tleDate
                       (binary64 (binary64 (binary64 (real_of_int i) * step a) * 60)))
              [0..sample_points a - 1];
          inertialFrame = (if inertial_frame a = ''j2000'' then EME2000 else GCRF)
      in case mainLoop clock propagator context a inertialFrame times ([], 0, 0, w) of
           Inl e \<Rightarrow> Inl e
         | Inr (results, estimateTime, actualTime, w') \<Rightarrow>
             report results estimateTime actualTime w')"

subsection \<open>Reference notions used in the statements\<close>

text \<open>
  The coordinates, in a frame turned by \<open>\<theta>\<close> about \<open>+K\<close>, of a vector that does not move:
  what a rotation about the polar axis means in the frame-transform convention.
\<close>

definition frameRotationK :: "real \<Rightarrow> vector3D \<Rightarrow> vector3D" where
  "frameRotationK \<theta> u =
     \<lparr>getX = getX u * cos \<theta> + getY u * sin \<theta>,
      getY = getY u * cos \<theta> - getX u * sin \<theta>,
      getZ = getZ u\<rparr>"

text \<open>
  The offset that \<open>checkSample\<close> records for its \<open>i\<close>-th test point: the duration from the
  reference epoch to the epoch shifted by \<^verbatim>\<open>float(i) * testStep\<close>.
\<close>

definition testOffset :: "absoluteDate \<Rightarrow> real \<Rightarrow> int \<Rightarrow> real" where
  "testOffset date testStep i =
     durationFrom (shiftedBy date (binary64 (binary64 (real_of_int i) * testStep))) date"

text \<open>The offsets that \<open>checkSample\<close> records at one reference epoch, in the order of the test points.\<close>

definition recordedOffsets :: "absoluteDate \<Rightarrow> args \<Rightarrow> real list" where
  "recordedOffsets date a = map (testOffset date (test_step a)) [0..tests_per_sample a - 1]"

text \<open>The reference epochs of \<open>main\<close>, the list \<^verbatim>\<open>times\<close> of line 178.\<close>

definition referenceEpochs :: "absoluteDate \<Rightarrow> args \<Rightarrow> absoluteDate list" where
  "referenceEpochs tleDate a =
     map (\<lambda>i. shiftedBy tleDate (binary64 (binary64 (binary64 (real_of_int i) * step a) * 60)))
       [0..sample_points a - 1]"

text \<open>A date as the library builds it: the rest is a double, at least 0 and below 1.\<close>

definition normalised :: "absoluteDate \<Rightarrow> bool" where
  "normalised d \<longleftrightarrow> binary64 (offset d) = offset d \<and> 0 \<le> offset d \<and> offset d < 1"

text \<open>
  The keys of a dictionary that had the keys \<open>ks\<close>, in this order, after the keys \<open>xs\<close>
  have been looked up and inserted one after the other: a key that is already there keeps
  its place, a new one goes to the end.
\<close>

fun insertKeys :: "real list \<Rightarrow> real list \<Rightarrow> real list" where
  "insertKeys ks [] = ks"
| "insertKeys ks (x # xs) = insertKeys (if x \<in> set ks then ks else ks @ [x]) xs"

text \<open>The offsets announced on the output, in the order of their lines.\<close>

definition printedDeltaTimes :: "line list \<Rightarrow> real list" where
  "printedDeltaTimes ls = concat (map (\<lambda>l. case l of DeltaTimeLine t \<Rightarrow> [t] | _ \<Rightarrow> []) ls)"

text \<open>Every bucket records the offset that is its key.\<close>

definition keyed :: "resultsDict \<Rightarrow> bool" where
  "keyed results \<longleftrightarrow> (\<forall>kv\<in>set results. statDeltaTime (snd kv) = fst kv)"

text \<open>
  The mean of a collection of numbers and its sample standard deviation (the square root of
  the sum of the squared deviations from the mean, divided by one less than the count), as
  functions of the collection alone, whatever the order in which it was gathered.
\<close>

definition sampleMean :: "real multiset \<Rightarrow> real" where
  "sampleMean M = sum_mset M / real (size M)"

definition sampleStdDev :: "real multiset \<Rightarrow> real" where
  "sampleStdDev M =
     sqrt (sum_mset (image_mset (\<lambda>v. (v - sampleMean M)\<^sup>2) M) / (real (size M) - 1))"

subsection \<open>A small world for examples\<close>

text \<open>
  A clock that advances by one second at each reading, a body that sits on the polar axis
  and moves along it, and a frame provider for which the two frames coincide.
\<close>

definition tickClock :: "nat \<Rightarrow> real" where
  "tickClock k = real k"

definition polarState :: pvCoordinates where
  "polarState = \<lparr>getPosition = PLUS_K, getVelocity = PLUS_K\<rparr>"

definition polarProvider :: "absoluteDate \<Rightarrow> frame \<Rightarrow> pvCoordinates" where
  "polarProvider t f = polarState"

definition identityContext :: dataContext where
  "identityContext = \<lparr>getTransformTo = (\<lambda>f g t. IDENTITY)\<rparr>"

definition startIo :: io where
  "startIo = \<lparr>tick = 0, stdout = []\<rparr>"

text \<open>
  The doubles that Python reads from the decimal texts 0.1, 0.2, 0.3 and 0.005, and the
  double that it prints as 0.10000000000000003.
\<close>

abbreviation double_0_1 :: real where
  "double_0_1 \<equiv> 3602879701896397 / 36028797018963968"

abbreviation double_0_2 :: real where
  "double_0_2 \<equiv> 3602879701896397 / 18014398509481984"

abbreviation double_0_3 :: real where
  "double_0_3 \<equiv> 5404319552844595 / 18014398509481984"

abbreviation double_0_005 :: real where
  "double_0_005 \<equiv> 5764607523034235 / 1152921504606846976"

abbreviation double_0_10000000000000003 :: real where
  "double_0_10000000000000003 \<equiv> 1801439850948199 / 18014398509481984"

text \<open>
  A frame provider whose transform is the identity at the origin of dates and a half turn
  about the first axis at every other date.
\<close>

definition flipContext :: dataContext where
  "flipContext =
     \<lparr>getTransformTo =
        (\<lambda>f g t. if t = \<lparr>epoch = 0, offset = 0\<rparr> then IDENTITY
                 else Transform t \<lparr>q0 = 0, q1 = 1, q2 = 0, q3 = 0\<rparr>)\<rparr>"

text \<open>The command line with every option at its default.\<close>

definition defaultArgs :: args where
  "defaultArgs =
     \<lparr>sample_points = 6, step = 15, verbose = False, inertial_frame = ''gcrf'',
      tests_per_sample = 10, test_step = 10\<rparr>"

section \<open>Properties\<close>

subsection \<open>Binary64 and dates\<close>

lemma pow2_pos: "0 < pow2 e"
  by (simp add: pow2_def)

lemma pow2_powr: "pow2 e = 2 powr real_of_int e"
  by (simp add: pow2_def powr_real_of_int field_simps)

lemma floor_log2_eq:
  assumes "pow2 k \<le> \<bar>x\<bar>" and "\<bar>x\<bar> < pow2 (k + 1)"
  shows "\<lfloor>log 2 \<bar>x\<bar>\<rfloor> = k"
proof -
  have pos: "0 < \<bar>x\<bar>" using assms(1) pow2_pos [of k] by linarith
  have "2 powr real_of_int k \<le> \<bar>x\<bar> \<and> \<bar>x\<bar> < 2 powr (real_of_int k + 1)"
    using assms by (simp add: pow2_powr)
  then show ?thesis
    using pos by (simp add: floor_log_eq_powr_iff)
qed

lemma binary64_0: "binary64 0 = 0"
  by (simp add: binary64_def)

text \<open>
  To round a number: bracket it between two powers of two, scale it by the unit in the
  last place of that binade, and round the quotient to an integer.
\<close>

lemma binary64_eqI:
  assumes "pow2 k \<le> \<bar>x\<bar>" and "\<bar>x\<bar> < pow2 (k + 1)"
    and "roundHalfEven (x / pow2 (max (k - 52) (- 1074))) = n"
    and "y = of_int n * pow2 (max (k - 52) (- 1074))"
  shows "binary64 x = y"
proof -
  have "x \<noteq> 0" using assms(1) pow2_pos [of k] by auto
  then show ?thesis
    using assms by (simp add: binary64_def floor_log2_eq [OF assms(1,2)] Let_def)
qed

lemma durationFrom_self: "durationFrom d d = 0"
  by (simp add: durationFrom_def binary64_0)

lemma shiftedBy_zero:
  assumes "normalised d"
  shows "shiftedBy d 0 = d"
proof -
  have r: "binary64 (offset d) = offset d" and p: "0 \<le> offset d"
    using assms by (simp_all add: normalised_def)
  have f: "\<lfloor>offset d\<rfloor> = 0"
    using assms by (simp add: normalised_def floor_eq_iff)
  show ?thesis
    by (simp add: shiftedBy_def binary64_0 Let_def r f p)
qed

lemma testOffset_zero: "normalised d \<Longrightarrow> testOffset d testStep 0 = 0"
  by (simp add: testOffset_def binary64_0 shiftedBy_zero durationFrom_self)

text \<open>A recorded offset depends on the reference epoch through its rest alone.\<close>

lemma testOffset_offset_only:
  "offset d2 = offset d1 \<Longrightarrow> testOffset d2 testStep i = testOffset d1 testStep i"
  by (simp add: testOffset_def shiftedBy_def durationFrom_def Let_def)

subsection \<open>Vector and rotation primitives\<close>

lemma getNorm_PLUS_K: "getNorm PLUS_K = 1"
  by (simp add: getNorm_def PLUS_K_def)

lemma Rotation_PLUS_K_FRAME:
  "Rotation PLUS_K a FRAME_TRANSFORM = Inr \<lparr>q0 = cos (a / 2), q1 = 0, q2 = 0, q3 = sin (a / 2)\<rparr>"
  by (simp add: Rotation_def getNorm_PLUS_K Let_def) (simp add: PLUS_K_def)

lemma cos_half: "2 * (cos (a / 2) * cos (a / 2)) - 1 = cos (a::real)"
  using cos_double_cos [of "a / 2"] by (simp add: power2_eq_square)

lemma sin_half: "2 * (sin (a / 2) * cos (a / 2)) = sin (a::real)"
  using sin_double [of "a / 2"] by simp

lemma unit_quaternion_z:
  fixes c s z :: real
  assumes "s * s + c * c = 1"
  shows "2 * (c * (z * c) + s * z * s) - z = z"
proof -
  have "2 * (c * (z * c) + s * z * s) - z = 2 * z * (s * s + c * c) - z"
    by (simp add: algebra_simps)
  also have "\<dots> = z" by (simp add: assms)
  finally show ?thesis .
qed

lemma applyTo_rotK:
  "applyTo \<lparr>q0 = cos (a / 2), q1 = 0, q2 = 0, q3 = sin (a / 2)\<rparr> u = frameRotationK a u"
proof -
  have c: "2 * (cos (a / 2) * cos (a / 2)) - 1 = cos a" by (rule cos_half)
  have s: "2 * (sin (a / 2) * cos (a / 2)) = sin a" by (rule sin_half)
  have u1: "sin (a / 2) * sin (a / 2) + cos (a / 2) * cos (a / 2) = 1"
    using sin_cos_squared_add [of "a / 2"] by (simp add: power2_eq_square)
  have X: "2 * (cos (a / 2) * (getX u * cos (a / 2) + sin (a / 2) * getY u)) - getX u
           = getX u * cos a + getY u * sin a"
    by (simp add: c [symmetric] s [symmetric] algebra_simps)
  have Y: "2 * (cos (a / 2) * (getY u * cos (a / 2) - sin (a / 2) * getX u)) - getY u
           = getY u * cos a - getX u * sin a"
    by (simp add: c [symmetric] s [symmetric] algebra_simps)
  have Z: "2 * (cos (a / 2) * (getZ u * cos (a / 2)) + sin (a / 2) * getZ u * sin (a / 2)) - getZ u
           = getZ u"
    by (rule unit_quaternion_z [OF u1])
  show ?thesis
    using Z by (simp add: applyTo_def frameRotationK_def Let_def X Y)
qed

lemma applyTo_IDENTITY_ROTATION: "applyTo IDENTITY_ROTATION u = u"
  by (simp add: applyTo_def IDENTITY_ROTATION_def Let_def)

lemma add_ZERO: "add u ZERO = u"
  by (simp add: add_def ZERO_def)

lemma crossProduct_ZERO_left: "crossProduct ZERO u = ZERO"
  by (simp add: crossProduct_def ZERO_def)

lemma subtract_ZERO: "subtract u ZERO = u"
  by (simp add: subtract_def ZERO_def)

lemma transformPVCoordinates_Transform:
  "transformPVCoordinates (Transform d r) pv =
     \<lparr>getPosition = applyTo r (getPosition pv), getVelocity = applyTo r (getVelocity pv)\<rparr>"
  by (simp add: transformPVCoordinates_def Transform_def PV_ZERO_def Let_def add_ZERO
      crossProduct_ZERO_left subtract_ZERO)

lemma transformPVCoordinates_IDENTITY: "transformPVCoordinates IDENTITY pv = pv"
  by (simp add: transformPVCoordinates_def IDENTITY_def PV_ZERO_def Let_def add_ZERO
      crossProduct_ZERO_left subtract_ZERO applyTo_IDENTITY_ROTATION)

lemma fixedTx_nonpos: "dt \<le> 0 \<Longrightarrow> fixedTx point dt = Inr IDENTITY"
  by (simp add: fixedTx_def)

lemma fixedTx_pos:
  "0 < dt \<Longrightarrow> fixedTx point dt =
     Inr (Transform point \<lparr>q0 = cos (dt * WGS84_EARTH_ANGULAR_VELOCITY / 2), q1 = 0, q2 = 0,
                           q3 = sin (dt * WGS84_EARTH_ANGULAR_VELOCITY / 2)\<rparr>)"
  by (simp add: fixedTx_def Rotation_PLUS_K_FRAME)

lemma getNorm_nonneg: "0 \<le> getNorm v"
  by (simp add: getNorm_def)

lemma getNorm_eq_0_iff: "getNorm v = 0 \<longleftrightarrow> getX v = 0 \<and> getY v = 0 \<and> getZ v = 0"
proof -
  have "getX v * getX v + getY v * getY v + getZ v * getZ v = 0
        \<longleftrightarrow> getX v = 0 \<and> getY v = 0 \<and> getZ v = 0"
    by (simp add: add_nonneg_eq_0_iff)
  then show ?thesis by (simp add: getNorm_def)
qed

lemma getNorm_square: "getNorm v * getNorm v = dotProduct v v"
  by (simp add: getNorm_def dotProduct_def)

lemma crossProduct_self: "crossProduct v v = ZERO"
  by (simp add: crossProduct_def ZERO_def)

lemma getNorm_ZERO: "getNorm ZERO = 0"
  by (simp add: getNorm_def ZERO_def)

lemma distance_self: "distance u u = 0"
  by (simp add: distance_def)

lemma angle_self:
  assumes "getNorm v \<noteq> 0"
  shows "angle v v = Inr 0"
proof -
  have pos: "0 < getNorm v * getNorm v"
    using assms getNorm_nonneg [of v] by (simp add: less_le)
  have d: "dotProduct v v = getNorm v * getNorm v" by (simp add: getNorm_square)
  have gt: "getNorm v * getNorm v * (9999 / 10000) < getNorm v * getNorm v"
    using pos by simp
  show ?thesis
    using assms pos gt
    by (simp add: angle_def Let_def d crossProduct_self getNorm_ZERO)
qed

lemma angle_Inl_iff: "angle v1 v2 = Inl e \<longleftrightarrow> e = ZERO_NORM \<and> (getNorm v1 = 0 \<or> getNorm v2 = 0)"
  by (auto simp add: angle_def Let_def)

lemma toDegrees_0: "toDegrees 0 = 0"
  by (simp add: toDegrees_def)

subsection \<open>One test point\<close>

lemma testPoint_zero_offset:
  assumes cons: "pvProv date ecef =
      transformPVCoordinates baseline (pvProv date inertialFrame)"
    and nz: "getNorm (getVelocity (pvProv date ecef)) \<noteq> 0"
  shows "testPoint clock pvProv ctx inertialFrame ecef baseline date verb date w =
     Inr (\<lparr>deltaTime = 0, posError = 0, velMagError = 0, velAngError = 0\<rparr>,
          clock (tick w + 1) - clock (tick w),
          clock (tick w + 3) - clock (tick w + 2),
          \<lparr>tick = tick w + 4,
           stdout = stdout w @
             (if verb then
                [TimePoint date, DeltaFromEpoch 0, PosErrorLine 0, VelMagErrorLine 0,
                 VelAngErrorLine 0,
                 CheckPosError (distance (getPosition (pvProv date ecef))
                   (getPosition (transformPVCoordinates
                      (getTransformTo ctx inertialFrame ecef date) (pvProv date inertialFrame)))),
                 CheckVelMagError (distance (getVelocity (pvProv date ecef))
                   (getVelocity (transformPVCoordinates
                      (getTransformTo ctx inertialFrame ecef date) (pvProv date inertialFrame)))),
                 CheckVelAngError 0]
              else [])\<rparr>)"
proof -
  have e: "estimate baseline date 0 (pvProv date inertialFrame) = Inr (pvProv date ecef)"
    by (simp add: estimate_def fixedTx_nonpos transformPVCoordinates_IDENTITY cons)
  show ?thesis
    by (simp add: testPoint_def Let_def e angle_self [OF nz] distance_self toDegrees_0
        durationFrom_self)
qed

lemma testPoint_Inr:
  assumes "testPoint clock pvProv context inertialFrame ecef baseline date verb point w
           = Inr (r, e, a, w')"
  shows "deltaTime r = durationFrom point date"
    and "tick w' = tick w + 4"
    and "e = clock (tick w + 1) - clock (tick w)"
    and "a = clock (tick w + 3) - clock (tick w + 2)"
    and "\<exists>est. estimate baseline point (durationFrom point date) (pvProv point inertialFrame) = Inr est
           \<and> posError r = distance (getPosition (pvProv point ecef)) (getPosition est)
           \<and> velMagError r = distance (getVelocity (pvProv point ecef)) (getVelocity est)
           \<and> angle (getVelocity (pvProv point ecef)) (getVelocity est) = Inr (velAngError r * pi / 180)"
  using assms
  by (auto simp add: testPoint_def Let_def toDegrees_def split: sum.splits)

lemma checkLoop_Inr:
  "checkLoop clock pvProv context iF ecef baseline date verb pts (res, e, a, w) = Inr (res', e', a', w')
   \<Longrightarrow> \<exists>new. res' = res @ new
         \<and> list_all2 (\<lambda>p r. \<exists>w0 e0 a0 w1.
               testPoint clock pvProv context iF ecef baseline date verb p w0 = Inr (r, e0, a0, w1))
             pts new
         \<and> tick w' = tick w + 4 * length pts"
proof (induction pts arbitrary: res e a w)
  case Nil
  then show ?case by simp
next
  case (Cons p pts)
  from Cons.prems obtain r e0 a0 w1 where
    tp: "testPoint clock pvProv context iF ecef baseline date verb p w = Inr (r, e0, a0, w1)"
    and rest: "checkLoop clock pvProv context iF ecef baseline date verb pts
                 (res @ [r], e + e0, a + a0, w1) = Inr (res', e', a', w')"
    by (auto split: sum.splits)
  from Cons.IH [OF rest] obtain new where
    n: "res' = (res @ [r]) @ new"
    and l: "list_all2 (\<lambda>p r. \<exists>w0 e0 a0 w1.
               testPoint clock pvProv context iF ecef baseline date verb p w0 = Inr (r, e0, a0, w1))
             pts new"
    and t: "tick w' = tick w1 + 4 * length pts"
    by blast
  have t1: "tick w1 = tick w + 4" using testPoint_Inr(2) [OF tp] .
  have "res' = res @ (r # new)" using n by simp
  moreover have "list_all2 (\<lambda>p r. \<exists>w0 e0 a0 w1.
               testPoint clock pvProv context iF ecef baseline date verb p w0 = Inr (r, e0, a0, w1))
             (p # pts) (r # new)"
    using l tp by auto
  moreover have "tick w' = tick w + 4 * length (p # pts)" using t t1 by simp
  ultimately show ?case by blast
qed

lemma checkLoop_total:
  "(\<And>p w. p \<in> set pts \<Longrightarrow> \<exists>x. testPoint clock pvProv context iF ecef baseline date verb p w = Inr x)
   \<Longrightarrow> \<exists>y. checkLoop clock pvProv context iF ecef baseline date verb pts st = Inr y"
proof (induction pts arbitrary: st)
  case Nil
  show ?case by (rule exI [of _ st]) simp
next
  case (Cons p pts)
  obtain res e a w where acc: "st = (res, e, a, w)" using prod_cases4 by blast
  from Cons.prems [of p w] obtain r e0 a0 w1 where
    tp: "testPoint clock pvProv context iF ecef baseline date verb p w = Inr (r, e0, a0, w1)"
    by (metis list.set_intros(1) prod_cases4)
  have "\<exists>y. checkLoop clock pvProv context iF ecef baseline date verb pts
            (res @ [r], e + e0, a + a0, w1) = Inr y"
  proof (rule Cons.IH)
    fix q w2
    assume "q \<in> set pts"
    then have "q \<in> set (p # pts)" by simp
    then show "\<exists>x. testPoint clock pvProv context iF ecef baseline date verb q w2 = Inr x"
      by (rule Cons.prems)
  qed
  then show ?case by (simp add: acc tp)
qed

lemma upto_length: "length [0..n - 1] = nat n"
  by simp

lemma checkSample_deltaTimes:
  assumes "checkSample clock date pvProv context fr numTests testStep verb w
           = Inr (results, estTime, actTime, w')"
  shows "map deltaTime results = map (testOffset date testStep) [0..numTests - 1]"
proof -
  let ?pts = "map (\<lambda>i. shiftedBy date (binary64 (binary64 (real_of_int i) * testStep)))
                [0..numTests - 1]"
  from assms obtain iF where
    "checkLoop clock pvProv context iF ITRF (getTransformTo context iF ITRF date) date verb
       ?pts ([], 0, 0, w) = Inr (results, estTime, actTime, w')"
    by (auto simp add: checkSample_def Let_def)
  from checkLoop_Inr [OF this] have
    l: "list_all2 (\<lambda>p r. \<exists>w0 e0 a0 w1.
          testPoint clock pvProv context iF ITRF (getTransformTo context iF ITRF date) date verb p w0
            = Inr (r, e0, a0, w1)) ?pts results"
    by simp
  have "list_all2 (\<lambda>p r. deltaTime r = durationFrom p date) ?pts results"
    by (rule list_all2_mono [OF l]) (auto dest: testPoint_Inr(1))
  then have "map deltaTime results = map (\<lambda>p. durationFrom p date) ?pts"
    by (induction rule: list_all2_induct) auto
  then show ?thesis
    by (simp add: testOffset_def comp_def)
qed

subsection \<open>The estimator\<close>

text \<open>
  C1. For a positive offset the estimate is the baseline transform followed by a rotation
  about \<open>+K\<close> by the offset times the WGS84 angular velocity: the rotation is built in
  the frame-transform convention, the transform that carries it is dated at the test
  point, and it acts on the state the baseline has produced, turning position and
  velocity as a frame turned by that angle sees them.
\<close>

theorem estimate_positive_offset:
  assumes "0 < dt"
  shows "\<exists>r. Rotation PLUS_K (dt * WGS84_EARTH_ANGULAR_VELOCITY) FRAME_TRANSFORM = Inr r
          \<and> fixedTx point dt = Inr (Transform point r)
          \<and> getDate (Transform point r) = point
          \<and> estimate baseline point dt pv =
              Inr (transformPVCoordinates (Transform point r) (transformPVCoordinates baseline pv))
          \<and> transformPVCoordinates (Transform point r) (transformPVCoordinates baseline pv) =
              \<lparr>getPosition = frameRotationK (dt * WGS84_EARTH_ANGULAR_VELOCITY)
                               (getPosition (transformPVCoordinates baseline pv)),
               getVelocity = frameRotationK (dt * WGS84_EARTH_ANGULAR_VELOCITY)
                               (getVelocity (transformPVCoordinates baseline pv))\<rparr>"
proof -
  let ?r = "\<lparr>q0 = cos (dt * WGS84_EARTH_ANGULAR_VELOCITY / 2), q1 = 0, q2 = 0,
             q3 = sin (dt * WGS84_EARTH_ANGULAR_VELOCITY / 2)\<rparr>"
  have 1: "Rotation PLUS_K (dt * WGS84_EARTH_ANGULAR_VELOCITY) FRAME_TRANSFORM = Inr ?r"
    by (rule Rotation_PLUS_K_FRAME)
  have 2: "fixedTx point dt = Inr (Transform point ?r)"
    using assms by (rule fixedTx_pos)
  have 3: "getDate (Transform point ?r) = point"
    by (simp add: Transform_def)
  have 4: "estimate baseline point dt pv =
             Inr (transformPVCoordinates (Transform point ?r) (transformPVCoordinates baseline pv))"
    by (simp add: estimate_def 2 Let_def)
  have 5: "transformPVCoordinates (Transform point ?r) (transformPVCoordinates baseline pv) =
              \<lparr>getPosition = frameRotationK (dt * WGS84_EARTH_ANGULAR_VELOCITY)
                               (getPosition (transformPVCoordinates baseline pv)),
               getVelocity = frameRotationK (dt * WGS84_EARTH_ANGULAR_VELOCITY)
                               (getVelocity (transformPVCoordinates baseline pv))\<rparr>"
    by (simp only: transformPVCoordinates_Transform applyTo_rotK)
  from 1 2 3 4 5 show ?thesis by blast
qed

theorem estimate_positive_offset_witness:
  "(0::real) < 30 \<and>
   (\<exists>r. Rotation PLUS_K (30 * WGS84_EARTH_ANGULAR_VELOCITY) FRAME_TRANSFORM = Inr r
          \<and> fixedTx \<lparr>epoch = 30, offset = 0\<rparr> 30 = Inr (Transform \<lparr>epoch = 30, offset = 0\<rparr> r)
          \<and> getDate (Transform \<lparr>epoch = 30, offset = 0\<rparr> r) = \<lparr>epoch = 30, offset = 0\<rparr>
          \<and> estimate IDENTITY \<lparr>epoch = 30, offset = 0\<rparr> 30 \<lparr>getPosition = PLUS_K, getVelocity = PLUS_K\<rparr> =
              Inr (transformPVCoordinates (Transform \<lparr>epoch = 30, offset = 0\<rparr> r)
                (transformPVCoordinates IDENTITY \<lparr>getPosition = PLUS_K, getVelocity = PLUS_K\<rparr>))
          \<and> transformPVCoordinates (Transform \<lparr>epoch = 30, offset = 0\<rparr> r)
                (transformPVCoordinates IDENTITY \<lparr>getPosition = PLUS_K, getVelocity = PLUS_K\<rparr>) =
              \<lparr>getPosition = frameRotationK (30 * WGS84_EARTH_ANGULAR_VELOCITY)
                 (getPosition (transformPVCoordinates IDENTITY \<lparr>getPosition = PLUS_K, getVelocity = PLUS_K\<rparr>)),
               getVelocity = frameRotationK (30 * WGS84_EARTH_ANGULAR_VELOCITY)
                 (getVelocity (transformPVCoordinates IDENTITY \<lparr>getPosition = PLUS_K, getVelocity = PLUS_K\<rparr>))\<rparr>)"
proof -
  have h: "(0::real) < 30" by simp
  show ?thesis
    using h estimate_positive_offset [OF h, of "\<lparr>epoch = 30, offset = 0\<rparr>" IDENTITY "\<lparr>getPosition = PLUS_K, getVelocity = PLUS_K\<rparr>"]
    by simp
qed

text \<open>
  C2. For an offset that is zero or negative \<open>fixedTx\<close> stays the identity and the estimate
  is the baseline transform applied alone.
\<close>

theorem estimate_nonpositive_offset:
  assumes "dt \<le> 0"
  shows "fixedTx point dt = Inr IDENTITY
         \<and> estimate baseline point dt pv = Inr (transformPVCoordinates baseline pv)"
  using assms
  by (simp add: estimate_def fixedTx_nonpos transformPVCoordinates_IDENTITY)

theorem estimate_nonpositive_offset_witness:
  "(0::real) \<le> 0
   \<and> fixedTx \<lparr>epoch = 5, offset = 0\<rparr> 0 = Inr IDENTITY
   \<and> estimate (Transform \<lparr>epoch = 5, offset = 0\<rparr> \<lparr>q0 = 0, q1 = 1, q2 = 0, q3 = 0\<rparr>) \<lparr>epoch = 5, offset = 0\<rparr> 0
        \<lparr>getPosition = PLUS_K, getVelocity = PLUS_K\<rparr>
      = Inr (transformPVCoordinates (Transform \<lparr>epoch = 5, offset = 0\<rparr> \<lparr>q0 = 0, q1 = 1, q2 = 0, q3 = 0\<rparr>)
               \<lparr>getPosition = PLUS_K, getVelocity = PLUS_K\<rparr>)"
proof -
  have h: "(0::real) \<le> 0" by simp
  show ?thesis
    using h estimate_nonpositive_offset [OF h, of "\<lparr>epoch = 5, offset = 0\<rparr>" "Transform \<lparr>epoch = 5, offset = 0\<rparr> \<lparr>q0 = 0, q1 = 1, q2 = 0, q3 = 0\<rparr>"
        "\<lparr>getPosition = PLUS_K, getVelocity = PLUS_K\<rparr>"]
    by simp
qed

subsection \<open>The loop of checkSample\<close>

lemma frameRotationK_PLUS_K: "frameRotationK a PLUS_K = PLUS_K"
  by (simp add: frameRotationK_def PLUS_K_def)

lemma estimate_polar: "estimate IDENTITY point dt polarState = Inr polarState"
proof (cases "0 < dt")
  case True
  then show ?thesis
    by (simp add: estimate_def fixedTx_pos transformPVCoordinates_IDENTITY
        transformPVCoordinates_Transform applyTo_rotK polarState_def frameRotationK_PLUS_K)
next
  case False
  then show ?thesis
    by (simp add: estimate_def fixedTx_nonpos transformPVCoordinates_IDENTITY)
qed

lemma testPoint_polar:
  "testPoint clock polarProvider identityContext iF ecef IDENTITY date False point w =
     Inr (\<lparr>deltaTime = durationFrom point date, posError = 0, velMagError = 0, velAngError = 0\<rparr>,
          clock (tick w + 1) - clock (tick w),
          clock (tick w + 3) - clock (tick w + 2),
          \<lparr>tick = tick w + 4, stdout = stdout w\<rparr>)"
proof -
  have n: "getNorm (getVelocity polarState) \<noteq> 0"
    by (simp add: polarState_def getNorm_PLUS_K)
  show ?thesis
    by (simp add: testPoint_def Let_def polarProvider_def estimate_polar angle_self [OF n]
        distance_self toDegrees_0)
qed

lemma upto_0_1: "[0..(1::int)] = [0, 1]"
  by (simp add: upto.simps)

lemma getTransformTo_identityContext: "getTransformTo identityContext f g t = IDENTITY"
  by (simp add: identityContext_def)

text \<open>
  In the small world every test point succeeds with errors 0 and takes one second on each
  path; only the offsets depend on the dates.
\<close>

lemma checkLoop_polar:
  "checkLoop tickClock polarProvider identityContext iF ecef IDENTITY date False pts (res, e, a, w) =
     Inr (res @ map (\<lambda>p. \<lparr>deltaTime = durationFrom p date, posError = 0, velMagError = 0,
                            velAngError = 0\<rparr>) pts,
          e + real (length pts), a + real (length pts),
          \<lparr>tick = tick w + 4 * length pts, stdout = stdout w\<rparr>)"
proof (induction pts arbitrary: res e a w)
  case Nil
  show ?case by simp
next
  case (Cons p pts)
  show ?case
    by (simp add: testPoint_polar Cons.IH) (simp add: tickClock_def)
qed

lemma checkSample_polar:
  "checkSample tickClock date polarProvider identityContext fr numTests testStep False w =
     Inr (map (\<lambda>i. \<lparr>deltaTime = testOffset date testStep i, posError = 0, velMagError = 0,
                        velAngError = 0\<rparr>) [0..numTests - 1],
          real (nat numTests), real (nat numTests),
          \<lparr>tick = tick w + 4 * nat numTests, stdout = stdout w\<rparr>)"
  by (simp add: checkSample_def Let_def getTransformTo_identityContext checkLoop_polar
      testOffset_def comp_def)

lemma normalised_origin: "normalised \<lparr>epoch = 0, offset = 0\<rparr>"
  by (simp add: normalised_def binary64_0)

lemma shiftedBy_origin_10_1:
  "shiftedBy \<lparr>epoch = 0, offset = 0\<rparr> 10 = \<lparr>epoch = 10, offset = 0\<rparr>"
proof -
  have s1: "binary64 (0 + 10) = 10"
    by (rule binary64_eqI [where k = "3" and n = "5629499534213120"])
      (simp_all add: pow2_def roundHalfEven_def Let_def)
  have s2: "binary64 (10 - 10) = 0"
    by (simp add: binary64_0)
  have s3: "binary64 (10 - 0) = 10"
    by (rule binary64_eqI [where k = "3" and n = "5629499534213120"])
      (simp_all add: pow2_def roundHalfEven_def Let_def)
  have s4: "binary64 (0 - 0) = 0"
    by (simp add: binary64_0)
  have s5: "binary64 (10 - 10) = 0"
    by (simp add: binary64_0)
  have s6: "binary64 (0 + 0) = 0"
    by (simp add: binary64_0)
  have s7: "\<lfloor>10 :: real\<rfloor> = 10"
    by simp
  have s8: "binary64 (real_of_int 10) = 10"
    by (rule binary64_eqI [where k = "3" and n = "5629499534213120"])
      (simp_all add: pow2_def roundHalfEven_def Let_def)
  have s9: "binary64 (10 - 10) = 0"
    by (simp add: binary64_0)
  have s10: "binary64 (0 + 0) = 0"
    by (simp add: binary64_0)
  show ?thesis
    unfolding shiftedBy_def Let_def absoluteDate.simps s1 s2 s3 s4 s5 s6 s7 s8 s9 s10
    by simp
qed

lemma durationFrom_origin_10_1:
  "durationFrom \<lparr>epoch = 10, offset = 0\<rparr> \<lparr>epoch = 0, offset = 0\<rparr> = 10"
proof -
  have d1: "binary64 (real_of_int (10 - 0)) = 10"
    by (rule binary64_eqI [where k = "3" and n = "5629499534213120"])
      (simp_all add: pow2_def roundHalfEven_def Let_def)
  have d2: "binary64 (0 - 0) = 0"
    by (simp add: binary64_0)
  have d3: "binary64 (10 + 0) = 10"
    by (rule binary64_eqI [where k = "3" and n = "5629499534213120"])
      (simp_all add: pow2_def roundHalfEven_def Let_def)
  show ?thesis
    unfolding durationFrom_def absoluteDate.simps d1 d2 d3
    by simp
qed

lemma testOffset_origin_10_1:
  "testOffset \<lparr>epoch = 0, offset = 0\<rparr> 10 1 = 10"
proof -
  have t1: "binary64 (real_of_int 1) = 1"
    by (rule binary64_eqI [where k = "0" and n = "4503599627370496"])
      (simp_all add: pow2_def roundHalfEven_def Let_def)
  have t2: "binary64 (1 * 10) = 10"
    by (rule binary64_eqI [where k = "3" and n = "5629499534213120"])
      (simp_all add: pow2_def roundHalfEven_def Let_def)
  show ?thesis
    unfolding testOffset_def t1 t2 shiftedBy_origin_10_1 durationFrom_origin_10_1
    by simp
qed

lemma checkSample_polar_origin:
  "checkSample tickClock \<lparr>epoch = 0, offset = 0\<rparr> polarProvider identityContext fr 2 10 False w =
     Inr ([\<lparr>deltaTime = 0, posError = 0, velMagError = 0, velAngError = 0\<rparr>,
           \<lparr>deltaTime = 10, posError = 0, velMagError = 0, velAngError = 0\<rparr>],
          2, 2, \<lparr>tick = tick w + 8, stdout = stdout w\<rparr>)"
  by (simp add: checkSample_polar upto_0_1 testOffset_zero [OF normalised_origin]
      testOffset_origin_10_1)

lemma rotation_keeps_squares:
  fixes c s x y :: real
  assumes "s * s + c * c = 1"
  shows "(x * c + y * s) * (x * c + y * s) + (y * c - x * s) * (y * c - x * s) = x * x + y * y"
proof -
  have "(x * c + y * s) * (x * c + y * s) + (y * c - x * s) * (y * c - x * s)
        = (x * x + y * y) * (s * s + c * c)"
    by (simp add: algebra_simps)
  also have "\<dots> = x * x + y * y" by (simp add: assms)
  finally show ?thesis .
qed

lemma getNorm_frameRotationK: "getNorm (frameRotationK a u) = getNorm u"
proof -
  have u1: "sin a * sin a + cos a * cos a = 1"
    using sin_cos_squared_add [of a] by (simp add: power2_eq_square)
  show ?thesis
    unfolding getNorm_def frameRotationK_def
    by (simp only: vector3D.simps rotation_keeps_squares [OF u1])
qed

lemma estimate_velocity_norm:
  "\<exists>est. estimate baseline point dt pv = Inr est
      \<and> getNorm (getVelocity est) = getNorm (getVelocity (transformPVCoordinates baseline pv))"
proof (cases "0 < dt")
  case True
  then show ?thesis
    by (simp add: estimate_def fixedTx_pos transformPVCoordinates_Transform applyTo_rotK
        getNorm_frameRotationK Let_def)
next
  case False
  then show ?thesis
    by (simp add: estimate_def fixedTx_nonpos transformPVCoordinates_IDENTITY)
qed

lemma testPoint_total:
  assumes "getNorm (getVelocity (pvProv point ecef)) \<noteq> 0"
    and "getNorm (getVelocity (transformPVCoordinates baseline (pvProv point iF))) \<noteq> 0"
  shows "\<exists>x. testPoint clock pvProv context iF ecef baseline date verb point w = Inr x"
proof -
  obtain est where e: "estimate baseline point (durationFrom point date) (pvProv point iF) = Inr est"
    and n: "getNorm (getVelocity est) = getNorm (getVelocity (transformPVCoordinates baseline (pvProv point iF)))"
    using estimate_velocity_norm by blast
  have "\<And>er. angle (getVelocity (pvProv point ecef)) (getVelocity est) \<noteq> Inl er"
    using assms n by (simp add: angle_Inl_iff)
  then obtain a where a: "angle (getVelocity (pvProv point ecef)) (getVelocity est) = Inr a"
    by (cases "angle (getVelocity (pvProv point ecef)) (getVelocity est)") auto
  show ?thesis
    by (simp add: testPoint_def Let_def e a)
qed

lemma testPoint_zero_offset_Inr:
  assumes tp: "testPoint clock pvProv context iF ecef baseline date verb date w = Inr (r, e, a, w')"
    and cons: "pvProv date ecef = transformPVCoordinates baseline (pvProv date iF)"
  shows "r = \<lparr>deltaTime = 0, posError = 0, velMagError = 0, velAngError = 0\<rparr>"
proof -
  have e: "estimate baseline date (durationFrom date date) (pvProv date iF) = Inr (pvProv date ecef)"
    by (simp add: estimate_def durationFrom_self fixedTx_nonpos transformPVCoordinates_IDENTITY cons)
  from testPoint_Inr(5) [OF tp] obtain est where
    e': "estimate baseline date (durationFrom date date) (pvProv date iF) = Inr est"
    and an: "angle (getVelocity (pvProv date ecef)) (getVelocity est) = Inr (velAngError r * pi / 180)"
    by blast
  from e e' have "est = pvProv date ecef" by simp
  with an have "angle (getVelocity (pvProv date ecef)) (getVelocity (pvProv date ecef))
                \<noteq> Inl ZERO_NORM"
    by simp
  then have nz: "getNorm (getVelocity (pvProv date ecef)) \<noteq> 0"
    by (simp add: angle_Inl_iff)
  show ?thesis
    using tp
      testPoint_zero_offset [where pvProv = pvProv and date = date and ecef = ecef
        and baseline = baseline and inertialFrame = iF and clock = clock
        and ctx = "context" and verb = verb and w = w, OF cons nz]
    by simp
qed

subsection \<open>The sample at the reference epoch\<close>

text \<open>
  C3. When the provider's Earth-fixed state at the reference epoch is the exact transform
  of its inertial state there, the first sample of a run, the one at offset 0, has offset 0
  and position, velocity and angle errors that are all exactly 0. The reference epoch is a
  date as the library builds it, so that shifting it by zero seconds gives the same date.
\<close>

theorem zero_offset_sample_exact:
  assumes run: "checkSample clock date pvProv context fr numTests testStep verb w
                = Inr (results, estTime, actTime, w')"
    and n: "1 \<le> numTests"
    and cons: "pvProv date ITRF =
               transformPVCoordinates
                 (getTransformTo context (case fr of None \<Rightarrow> GCRF | Some f \<Rightarrow> f) ITRF date)
                 (pvProv date (case fr of None \<Rightarrow> GCRF | Some f \<Rightarrow> f))"
    and norm: "normalised date"
  shows "results \<noteq> []
         \<and> hd results = \<lparr>deltaTime = 0, posError = 0, velMagError = 0, velAngError = 0\<rparr>"
proof -
  let ?iF = "case fr of None \<Rightarrow> GCRF | Some f \<Rightarrow> f"
  let ?b = "getTransformTo context ?iF ITRF date"
  let ?f = "\<lambda>i. shiftedBy date (binary64 (binary64 (real_of_int i) * testStep))"
  have up: "[0..numTests - 1] = 0 # [1..numTests - 1]"
    using n by (simp add: upto.simps)
  have pts: "map ?f [0..numTests - 1] = date # map ?f [1..numTests - 1]"
    by (simp add: up binary64_0 shiftedBy_zero [OF norm])
  from run have "checkLoop clock pvProv context ?iF ITRF ?b date verb
       (date # map ?f [1..numTests - 1]) ([], 0, 0, w) = Inr (results, estTime, actTime, w')"
    by (simp add: checkSample_def Let_def pts)
  from checkLoop_Inr [OF this] have
    "list_all2 (\<lambda>p r. \<exists>w0 e0 a0 w1.
        testPoint clock pvProv context ?iF ITRF ?b date verb p w0 = Inr (r, e0, a0, w1))
       (date # map ?f [1..numTests - 1]) results"
    by simp
  then obtain r rs w0 e0 a0 w1 where res: "results = r # rs"
    and tp: "testPoint clock pvProv context ?iF ITRF ?b date verb date w0 = Inr (r, e0, a0, w1)"
    by (auto simp add: list_all2_Cons1)
  from testPoint_zero_offset_Inr [OF tp cons] res show ?thesis by simp
qed

theorem zero_offset_sample_exact_witness:
  "checkSample tickClock \<lparr>epoch = 0, offset = 0\<rparr> polarProvider identityContext None 2 10 False startIo
     = Inr ([\<lparr>deltaTime = 0, posError = 0, velMagError = 0, velAngError = 0\<rparr>,
             \<lparr>deltaTime = 10, posError = 0, velMagError = 0, velAngError = 0\<rparr>],
            2, 2, \<lparr>tick = 8, stdout = []\<rparr>)
   \<and> (1::int) \<le> 2
   \<and> polarProvider \<lparr>epoch = 0, offset = 0\<rparr> ITRF =
       transformPVCoordinates (getTransformTo identityContext GCRF ITRF \<lparr>epoch = 0, offset = 0\<rparr>)
         (polarProvider \<lparr>epoch = 0, offset = 0\<rparr> GCRF)
   \<and> normalised \<lparr>epoch = 0, offset = 0\<rparr>
   \<and> hd [\<lparr>deltaTime = 0, posError = 0, velMagError = 0, velAngError = 0\<rparr>,
           \<lparr>deltaTime = 10, posError = 0, velMagError = 0, velAngError = 0\<rparr>]
       = \<lparr>deltaTime = 0, posError = 0, velMagError = 0, velAngError = 0\<rparr>"
proof -
  have run: "checkSample tickClock \<lparr>epoch = 0, offset = 0\<rparr> polarProvider identityContext None 2 10 False startIo
     = Inr ([\<lparr>deltaTime = 0, posError = 0, velMagError = 0, velAngError = 0\<rparr>,
             \<lparr>deltaTime = 10, posError = 0, velMagError = 0, velAngError = 0\<rparr>],
            2, 2, \<lparr>tick = 8, stdout = []\<rparr>)"
    by (simp add: checkSample_polar_origin startIo_def)
  have n: "(1::int) \<le> 2" by simp
  have cons: "polarProvider \<lparr>epoch = 0, offset = 0\<rparr> ITRF =
       transformPVCoordinates
         (getTransformTo identityContext (case None of None \<Rightarrow> GCRF | Some f \<Rightarrow> f) ITRF
            \<lparr>epoch = 0, offset = 0\<rparr>)
         (polarProvider \<lparr>epoch = 0, offset = 0\<rparr> (case None of None \<Rightarrow> GCRF | Some f \<Rightarrow> f))"
    by (simp add: getTransformTo_identityContext transformPVCoordinates_IDENTITY polarProvider_def)
  from zero_offset_sample_exact [OF run n cons normalised_origin] run n cons normalised_origin
  show ?thesis by simp
qed

subsection \<open>The list returned by checkSample\<close>

lemma checkSample_zero_tests:
  "checkSample clock date pvProv ctx fr 0 testStep verb w = Inr ([], 0, 0, w)"
  by (simp add: checkSample_def Let_def)

lemma checkSample_total:
  assumes "\<And>i. i \<in> set [0..numTests - 1] \<Longrightarrow>
      getNorm (getVelocity (pvProv (shiftedBy date (binary64 (binary64 (real_of_int i) * testStep))) ITRF)) \<noteq> 0
      \<and> getNorm (getVelocity (transformPVCoordinates
            (getTransformTo ctx (case fr of None \<Rightarrow> GCRF | Some f \<Rightarrow> f) ITRF date)
            (pvProv (shiftedBy date (binary64 (binary64 (real_of_int i) * testStep)))
               (case fr of None \<Rightarrow> GCRF | Some f \<Rightarrow> f)))) \<noteq> 0"
  shows "\<exists>res. checkSample clock date pvProv ctx fr numTests testStep verb w = Inr res"
proof -
  let ?iF = "case fr of None \<Rightarrow> GCRF | Some f \<Rightarrow> f"
  let ?b = "getTransformTo ctx ?iF ITRF date"
  let ?pts = "map (\<lambda>i. shiftedBy date (binary64 (binary64 (real_of_int i) * testStep)))
                [0..numTests - 1]"
  have "\<exists>y. checkLoop clock pvProv ctx ?iF ITRF ?b date verb ?pts ([], 0, 0, w) = Inr y"
  proof (rule checkLoop_total)
    fix p w2
    assume "p \<in> set ?pts"
    then obtain i where i: "i \<in> set [0..numTests - 1]"
      and p: "p = shiftedBy date (binary64 (binary64 (real_of_int i) * testStep))"
      by auto
    from assms [OF i] show "\<exists>x. testPoint clock pvProv ctx ?iF ITRF ?b date verb p w2 = Inr x"
      unfolding p by (intro testPoint_total) simp_all
  qed
  then show ?thesis by (simp add: checkSample_def Let_def)
qed

text \<open>
  C10. A run of \<open>checkSample\<close> that returns gives one record for each test point, in the
  order of the test points: the \<open>k\<close>-th record carries the offset of the \<open>k\<close>-th test point
  from the reference epoch. With no test point it returns the empty list and two zero
  times and leaves the world as it was. It returns whenever none of the velocities whose
  angle it takes has norm zero.
\<close>

theorem checkSample_result_list:
  "(checkSample clock date pvProv ctx fr numTests testStep verb w
      = Inr (results, estTime, actTime, w')
    \<longrightarrow> length results = nat numTests
        \<and> (\<forall>k<length results. deltaTime (results ! k) = testOffset date testStep (int k)))
   \<and> checkSample clock date pvProv ctx fr 0 testStep verb w = Inr ([], 0, 0, w)
   \<and> ((\<forall>i\<in>set [0..numTests - 1].
          getNorm (getVelocity (pvProv (shiftedBy date (binary64 (binary64 (real_of_int i) * testStep))) ITRF)) \<noteq> 0
          \<and> getNorm (getVelocity (transformPVCoordinates
                (getTransformTo ctx (case fr of None \<Rightarrow> GCRF | Some f \<Rightarrow> f) ITRF date)
                (pvProv (shiftedBy date (binary64 (binary64 (real_of_int i) * testStep)))
                   (case fr of None \<Rightarrow> GCRF | Some f \<Rightarrow> f)))) \<noteq> 0)
       \<longrightarrow> (\<exists>res. checkSample clock date pvProv ctx fr numTests testStep verb w = Inr res))"
proof (intro conjI impI)
  assume run: "checkSample clock date pvProv ctx fr numTests testStep verb w
      = Inr (results, estTime, actTime, w')"
  have m: "map deltaTime results = map (testOffset date testStep) [0..numTests - 1]"
    using run by (rule checkSample_deltaTimes)
  have "length (map deltaTime results) = length [0..numTests - 1]"
    unfolding m by simp
  then show len: "length results = nat numTests" by simp
  show "\<forall>k<length results. deltaTime (results ! k) = testOffset date testStep (int k)"
  proof (intro allI impI)
    fix k assume k: "k < length results"
    then have "deltaTime (results ! k) = map deltaTime results ! k" by simp
    also have "\<dots> = testOffset date testStep ([0..numTests - 1] ! k)"
      unfolding m using k len by simp
    also have "[0..numTests - 1] ! k = int k"
      using k len by (simp add: nth_upto)
    finally show "deltaTime (results ! k) = testOffset date testStep (int k)" by simp
  qed
next
  show "checkSample clock date pvProv ctx fr 0 testStep verb w = Inr ([], 0, 0, w)"
    by (rule checkSample_zero_tests)
next
  assume "\<forall>i\<in>set [0..numTests - 1].
          getNorm (getVelocity (pvProv (shiftedBy date (binary64 (binary64 (real_of_int i) * testStep))) ITRF)) \<noteq> 0
          \<and> getNorm (getVelocity (transformPVCoordinates
                (getTransformTo ctx (case fr of None \<Rightarrow> GCRF | Some f \<Rightarrow> f) ITRF date)
                (pvProv (shiftedBy date (binary64 (binary64 (real_of_int i) * testStep)))
                   (case fr of None \<Rightarrow> GCRF | Some f \<Rightarrow> f)))) \<noteq> 0"
  then show "\<exists>res. checkSample clock date pvProv ctx fr numTests testStep verb w = Inr res"
    by (intro checkSample_total) blast
qed

theorem checkSample_result_list_witness:
  "checkSample tickClock \<lparr>epoch = 0, offset = 0\<rparr> polarProvider identityContext None 2 10 False startIo
     = Inr ([\<lparr>deltaTime = 0, posError = 0, velMagError = 0, velAngError = 0\<rparr>,
             \<lparr>deltaTime = 10, posError = 0, velMagError = 0, velAngError = 0\<rparr>],
            2, 2, \<lparr>tick = 8, stdout = []\<rparr>)
   \<and> length [\<lparr>deltaTime = 0, posError = 0, velMagError = 0, velAngError = 0\<rparr>,
              \<lparr>deltaTime = 10, posError = 0, velMagError = 0, velAngError = (0::real)\<rparr>] = nat 2
   \<and> testOffset \<lparr>epoch = 0, offset = 0\<rparr> 10 (int 1) = 10
   \<and> checkSample tickClock \<lparr>epoch = 0, offset = 0\<rparr> polarProvider identityContext None 0 10 False startIo
     = Inr ([], 0, 0, startIo)
   \<and> getNorm (getVelocity (polarProvider
         (shiftedBy \<lparr>epoch = 0, offset = 0\<rparr> (binary64 (binary64 (real_of_int 0) * 10))) ITRF)) \<noteq> 0
   \<and> getNorm (getVelocity (polarProvider
         (shiftedBy \<lparr>epoch = 0, offset = 0\<rparr> (binary64 (binary64 (real_of_int 1) * 10))) ITRF)) \<noteq> 0
   \<and> getNorm (getVelocity (transformPVCoordinates
         (getTransformTo identityContext GCRF ITRF \<lparr>epoch = 0, offset = 0\<rparr>)
         (polarProvider (shiftedBy \<lparr>epoch = 0, offset = 0\<rparr> (binary64 (binary64 (real_of_int 0) * 10))) GCRF)))
       \<noteq> 0
   \<and> getNorm (getVelocity (transformPVCoordinates
         (getTransformTo identityContext GCRF ITRF \<lparr>epoch = 0, offset = 0\<rparr>)
         (polarProvider (shiftedBy \<lparr>epoch = 0, offset = 0\<rparr> (binary64 (binary64 (real_of_int 1) * 10))) GCRF)))
       \<noteq> 0"
proof -
  have run: "checkSample tickClock \<lparr>epoch = 0, offset = 0\<rparr> polarProvider identityContext None 2 10 False startIo
     = Inr ([\<lparr>deltaTime = 0, posError = 0, velMagError = 0, velAngError = 0\<rparr>,
             \<lparr>deltaTime = 10, posError = 0, velMagError = 0, velAngError = 0\<rparr>],
            2, 2, \<lparr>tick = 8, stdout = []\<rparr>)"
    by (simp add: checkSample_polar_origin startIo_def)
  show ?thesis
    using checkSample_result_list [of tickClock "\<lparr>epoch = 0, offset = 0\<rparr>" polarProvider identityContext
        None 2 10 False startIo
        "[\<lparr>deltaTime = 0, posError = 0, velMagError = 0, velAngError = 0\<rparr>,
          \<lparr>deltaTime = 10, posError = 0, velMagError = 0, velAngError = 0\<rparr>]"
        2 2 "\<lparr>tick = 8, stdout = []\<rparr>"]
      run
    by (simp add: getTransformTo_identityContext transformPVCoordinates_IDENTITY polarProvider_def
        polarState_def getNorm_PLUS_K testOffset_origin_10_1)
qed

subsection \<open>The check values of the verbose output\<close>

lemma applyTo_half_turn_PLUS_K:
  "applyTo \<lparr>q0 = 0, q1 = 1, q2 = 0, q3 = 0\<rparr> PLUS_K = \<lparr>getX = 0, getY = 0, getZ = - 1\<rparr>"
  by (simp add: applyTo_def PLUS_K_def Let_def)

lemma getTransformTo_flipContext:
  "getTransformTo flipContext f g t =
     (if t = \<lparr>epoch = 0, offset = 0\<rparr> then IDENTITY
      else Transform t \<lparr>q0 = 0, q1 = 1, q2 = 0, q3 = 0\<rparr>)"
  by (simp add: flipContext_def)

lemma angle_opposite_poles:
  "angle PLUS_K \<lparr>getX = 0, getY = 0, getZ = - 1\<rparr> = Inr pi"
  by (simp add: angle_def Let_def getNorm_def dotProduct_def crossProduct_def PLUS_K_def)

text \<open>
  C4. In the verbose output of a test point the check value of the velocity angle is the
  angle between the ground-truth velocity and the estimated velocity, converted to
  degrees: the very number printed as the velocity angle error and stored in the sample.
  The velocity of the exact transform does not enter it.
\<close>

theorem check_angle_is_estimate_angle:
  assumes "testPoint clock pvProv ctx iF ecef baseline date True point w = Inr (r, e, a, w')"
  shows "\<exists>est ang.
           estimate baseline point (durationFrom point date) (pvProv point iF) = Inr est
           \<and> angle (getVelocity (pvProv point ecef)) (getVelocity est) = Inr ang
           \<and> velAngError r = toDegrees ang
           \<and> stdout w' = stdout w @
               [TimePoint date,
                DeltaFromEpoch (deltaTime r),
                PosErrorLine (posError r),
                VelMagErrorLine (velMagError r),
                VelAngErrorLine (toDegrees ang),
                CheckPosError (distance (getPosition (pvProv point ecef))
                  (getPosition (transformPVCoordinates (getTransformTo ctx iF ecef point)
                     (pvProv point iF)))),
                CheckVelMagError (distance (getVelocity (pvProv point ecef))
                  (getVelocity (transformPVCoordinates (getTransformTo ctx iF ecef point)
                     (pvProv point iF)))),
                CheckVelAngError (toDegrees ang)]"
  using assms
  by (auto simp add: testPoint_def Let_def split: sum.splits)

lemma durationFrom_10:
  "durationFrom \<lparr>epoch = 10, offset = 0\<rparr> \<lparr>epoch = 0, offset = 0\<rparr> = 10"
proof -
  have d1: "binary64 (real_of_int (10 - 0)) = 10"
    by (rule binary64_eqI [where k = "3" and n = "5629499534213120"])
      (simp_all add: pow2_def roundHalfEven_def Let_def)
  have d2: "binary64 (0 - 0) = 0"
    by (simp add: binary64_0)
  have d3: "binary64 (10 + 0) = 10"
    by (rule binary64_eqI [where k = "3" and n = "5629499534213120"])
      (simp_all add: pow2_def roundHalfEven_def Let_def)
  show ?thesis
    unfolding durationFrom_def absoluteDate.simps d1 d2 d3
    by simp
qed

lemma testPoint_flip:
  "testPoint tickClock polarProvider flipContext GCRF ITRF IDENTITY \<lparr>epoch = 0, offset = 0\<rparr> True
     \<lparr>epoch = 10, offset = 0\<rparr> startIo =
     Inr (\<lparr>deltaTime = 10, posError = 0, velMagError = 0, velAngError = 0\<rparr>, 1, 1,
          \<lparr>tick = 4,
           stdout = [TimePoint \<lparr>epoch = 0, offset = 0\<rparr>, DeltaFromEpoch 10, PosErrorLine 0, VelMagErrorLine 0,
                     VelAngErrorLine 0, CheckPosError 2, CheckVelMagError 2,
                     CheckVelAngError 0]\<rparr>)"
proof -
  have n: "getNorm (getVelocity polarState) \<noteq> 0"
    by (simp add: polarState_def getNorm_PLUS_K)
  have d: "distance PLUS_K \<lparr>getX = 0, getY = 0, getZ = - 1\<rparr> = 2"
    by (simp add: distance_def PLUS_K_def)
  show ?thesis
    by (simp add: testPoint_def Let_def polarProvider_def estimate_polar angle_self [OF n]
        distance_self toDegrees_0 durationFrom_10 getTransformTo_flipContext
        transformPVCoordinates_Transform tickClock_def startIo_def)
      (simp add: polarState_def applyTo_half_turn_PLUS_K d)
qed

theorem check_angle_is_estimate_angle_witness:
  "testPoint tickClock polarProvider flipContext GCRF ITRF IDENTITY \<lparr>epoch = 0, offset = 0\<rparr> True
     \<lparr>epoch = 10, offset = 0\<rparr> startIo =
     Inr (\<lparr>deltaTime = 10, posError = 0, velMagError = 0, velAngError = 0\<rparr>, 1, 1,
          \<lparr>tick = 4,
           stdout = [TimePoint \<lparr>epoch = 0, offset = 0\<rparr>, DeltaFromEpoch 10, PosErrorLine 0, VelMagErrorLine 0,
                     VelAngErrorLine 0, CheckPosError 2, CheckVelMagError 2,
                     CheckVelAngError 0]\<rparr>)
   \<and> estimate IDENTITY \<lparr>epoch = 10, offset = 0\<rparr> (durationFrom \<lparr>epoch = 10, offset = 0\<rparr> \<lparr>epoch = 0, offset = 0\<rparr>)
       (polarProvider \<lparr>epoch = 10, offset = 0\<rparr> GCRF) = Inr polarState
   \<and> angle (getVelocity (polarProvider \<lparr>epoch = 10, offset = 0\<rparr> ITRF)) (getVelocity polarState) = Inr 0
   \<and> angle (getVelocity (polarProvider \<lparr>epoch = 10, offset = 0\<rparr> ITRF))
        (getVelocity (transformPVCoordinates (getTransformTo flipContext GCRF ITRF \<lparr>epoch = 10, offset = 0\<rparr>)
           (polarProvider \<lparr>epoch = 10, offset = 0\<rparr> GCRF))) = Inr pi
   \<and> toDegrees pi = 180"
proof -
  have n: "getNorm (getVelocity polarState) \<noteq> 0"
    by (simp add: polarState_def getNorm_PLUS_K)
  have act: "angle (getVelocity (polarProvider \<lparr>epoch = 10, offset = 0\<rparr> ITRF))
        (getVelocity (transformPVCoordinates (getTransformTo flipContext GCRF ITRF \<lparr>epoch = 10, offset = 0\<rparr>)
           (polarProvider \<lparr>epoch = 10, offset = 0\<rparr> GCRF))) = Inr pi"
    by (simp add: getTransformTo_flipContext transformPVCoordinates_Transform polarProvider_def
        polarState_def applyTo_half_turn_PLUS_K angle_opposite_poles)
  show ?thesis
    using check_angle_is_estimate_angle [OF testPoint_flip] testPoint_flip act
    by (simp add: polarProvider_def estimate_polar angle_self [OF n] toDegrees_def)
qed

subsection \<open>The last line of the report\<close>

lemma report_zero_actual: "report results estimateTime 0 w = Inl ZeroDivisionError"
  by (simp add: report_def Let_def)

lemma main_no_sample_points:
  "main clock tleDate propagator ctx (a\<lparr>sample_points := 0\<rparr>) w = Inl ZeroDivisionError"
  by (simp add: main_def Let_def report_zero_actual)

text \<open>
  C5, as the claim states it, fails: with no sample point both totals are 0, the report
  divides by the exact-path total, and the run ends with Python's division error.
\<close>

theorem main_zero_samples_raises:
  "main tickClock \<lparr>epoch = 0, offset = 0\<rparr> polarProvider identityContext (defaultArgs\<lparr>sample_points := 0\<rparr>) startIo
     = Inl ZeroDivisionError"
  by (rule main_no_sample_points)

text \<open>
  C5, amended. The report always performs the division by the exact-path total. When that
  total is 0, as in every run without a sample point, the division raises and no
  percent-improvement line is printed; otherwise the report ends with the quotient.
\<close>

theorem report_always_divides:
  "report results estimateTime 0 w = Inl ZeroDivisionError
   \<and> main clock tleDate propagator ctx (a\<lparr>sample_points := 0\<rparr>) w = Inl ZeroDivisionError
   \<and> (actualTime \<noteq> 0 \<longrightarrow>
        (\<exists>w'. report results estimateTime actualTime w = Inr w'
              \<and> last (stdout w') =
                  PercentImprovement (100 * (actualTime - estimateTime) / actualTime)))"
  by (simp add: report_zero_actual main_no_sample_points) (simp add: report_def Let_def)

theorem report_always_divides_witness:
  "report [] 1 0 startIo = Inl ZeroDivisionError
   \<and> main tickClock \<lparr>epoch = 0, offset = 0\<rparr> polarProvider identityContext (defaultArgs\<lparr>sample_points := 0\<rparr>) startIo
       = Inl ZeroDivisionError
   \<and> (2::real) \<noteq> 0
   \<and> report [] 1 2 startIo =
       Inr \<lparr>tick = 0,
            stdout = [Blank, TotalTime, HighFidelity 2, Estimated 1, PercentImprovement 50]\<rparr>"
  using report_always_divides [of "[]" 1 startIo tickClock "\<lparr>epoch = 0, offset = 0\<rparr>" polarProvider identityContext
      defaultArgs 2]
  by (simp add: report_def reportBody_def Let_def startIo_def)


subsection \<open>The dictionary of statistics\<close>

lemma map_of_setitem: "map_of (setitem k v results) = (map_of results)(k \<mapsto> v)"
  by (induction results) auto

lemma keys_setitem:
  "map fst (setitem k v results) =
     (if k \<in> fst ` set results then map fst results else map fst results @ [k])"
proof (induction results)
  case Nil
  show ?case by simp
next
  case (Cons p results)
  obtain k' v' where p: "p = (k', v')" by (cases p)
  show ?case
  proof (cases "k' = k")
    case True
    then show ?thesis by (simp add: p)
  next
    case False
    then have "k \<in> fst ` set (p # results) \<longleftrightarrow> k \<in> fst ` set results"
      by (auto simp add: p)
    then show ?thesis using False Cons.IH by (simp add: p)
  qed
qed

lemma map_of_None_iff: "map_of results k = None \<longleftrightarrow> k \<notin> fst ` set results"
  by (simp add: map_of_eq_None_iff)

lemma keys_addSample:
  "map fst (addSample d results) =
     (if deltaTime d \<in> fst ` set results then map fst results
      else map fst results @ [deltaTime d])"
  by (auto simp add: addSample_def Let_def keys_setitem map_of_None_iff split: option.splits)

lemma map_of_addSample:
  "map_of (addSample d results) k =
     (if deltaTime d = k then
        Some (case map_of results k of
                None \<Rightarrow>
                  \<lparr>statDeltaTime = deltaTime d,
                   statPosError = [posError d],
                   statVelMagError = [velMagError d],
                   statVelAngError = [velAngError d]\<rparr>
              | Some r \<Rightarrow>
                  r\<lparr>statPosError := statPosError r @ [posError d],
                    statVelMagError := statVelMagError r @ [velMagError d],
                    statVelAngError := statVelAngError r @ [velAngError d]\<rparr>)
      else map_of results k)"
  by (auto simp add: addSample_def Let_def map_of_setitem DescriptiveStatistics_def addValue_def
      split: option.splits)

text \<open>What a bucket holds once \<open>data\<close> has been added to a dictionary.\<close>

lemma map_of_aggregate:
  "map_of (aggregate data results) k =
     (case map_of results k of
        None \<Rightarrow>
          (if filter (\<lambda>d. deltaTime d = k) data = [] then None
           else Some \<lparr>statDeltaTime = k,
                      statPosError = map posError (filter (\<lambda>d. deltaTime d = k) data),
                      statVelMagError = map velMagError (filter (\<lambda>d. deltaTime d = k) data),
                      statVelAngError = map velAngError (filter (\<lambda>d. deltaTime d = k) data)\<rparr>)
      | Some r \<Rightarrow>
          Some (r\<lparr>statPosError := statPosError r @ map posError (filter (\<lambda>d. deltaTime d = k) data),
                  statVelMagError := statVelMagError r
                     @ map velMagError (filter (\<lambda>d. deltaTime d = k) data),
                  statVelAngError := statVelAngError r
                     @ map velAngError (filter (\<lambda>d. deltaTime d = k) data)\<rparr>))"
proof (induction data arbitrary: results)
  case Nil
  show ?case by (simp split: option.splits)
next
  case (Cons d data)
  show ?case
    by (simp add: Cons.IH map_of_addSample split: option.splits)
qed

lemma map_of_aggregate_empty:
  "map_of (aggregate data []) k =
     (if filter (\<lambda>d. deltaTime d = k) data = [] then None
      else Some \<lparr>statDeltaTime = k,
                 statPosError = map posError (filter (\<lambda>d. deltaTime d = k) data),
                 statVelMagError = map velMagError (filter (\<lambda>d. deltaTime d = k) data),
                 statVelAngError = map velAngError (filter (\<lambda>d. deltaTime d = k) data)\<rparr>)"
  by (simp add: map_of_aggregate)

lemma getMean_sampleMean: "xs \<noteq> [] \<Longrightarrow> getMean xs = Some (sampleMean (mset xs))"
  by (simp add: getMean_def getN_def sampleMean_def sum_mset_sum_list)

lemma getStandardDeviation_sampleStdDev:
  assumes "xs \<noteq> []"
  shows "getStandardDeviation xs = Some (if length xs = 1 then 0 else sampleStdDev (mset xs))"
proof (cases "length xs = 1")
  case True
  then show ?thesis by (simp add: getStandardDeviation_def getN_def)
next
  case False
  with assms have l: "1 < length xs" by (cases xs) auto
  have m: "sum_list xs / real (length xs) = sampleMean (mset xs)"
    by (simp add: sampleMean_def sum_mset_sum_list)
  have "sum_list (map (\<lambda>v. (v - sampleMean (mset xs)) * (v - sampleMean (mset xs))) xs)
        = sum_mset (mset (map (\<lambda>v. (v - sampleMean (mset xs))\<^sup>2) xs))"
    by (simp only: sum_mset_sum_list power2_eq_square)
  then have "sum_list (map (\<lambda>v. (v - sampleMean (mset xs)) * (v - sampleMean (mset xs))) xs)
        = sum_mset (image_mset (\<lambda>v. (v - sampleMean (mset xs))\<^sup>2) (mset xs))"
    by (simp only: mset_map)
  then show ?thesis
    using l False assms
    by (simp add: getStandardDeviation_def getVariance_def getN_def Let_def sampleStdDev_def m)
qed

text \<open>
  C6. Take any list of samples and feed the aggregator any permutation of it. For every
  offset that some sample has, the bucket of that offset holds the three errors of exactly
  the samples with that offset, and the lines reported for it carry the mean and the
  sample standard deviation of those errors (the standard deviation of a single value
  being reported as 0); an offset that no sample has gets no bucket. Mean and standard
  deviation are functions of the collection of samples alone, so every permutation reports
  the same numbers.
\<close>

theorem aggregation_order_independent:
  assumes "mset data' = mset data"
  shows "map_option (\<lambda>r. (mset (statPosError r), mset (statVelMagError r), mset (statVelAngError r)))
           (map_of (aggregate data' []) k)
         = (if {#d \<in># mset data. deltaTime d = k#} = {#} then None
            else Some (image_mset posError {#d \<in># mset data. deltaTime d = k#},
                       image_mset velMagError {#d \<in># mset data. deltaTime d = k#},
                       image_mset velAngError {#d \<in># mset data. deltaTime d = k#}))
       \<and> map_option reportLines (map_of (aggregate data' []) k)
         = (if {#d \<in># mset data. deltaTime d = k#} = {#} then None
            else Some
              [DeltaTimeLine k,
               PosErrM
                 (Some (sampleMean (image_mset posError {#d \<in># mset data. deltaTime d = k#})))
                 (Some (if size {#d \<in># mset data. deltaTime d = k#} = 1 then 0
                        else sampleStdDev (image_mset posError {#d \<in># mset data. deltaTime d = k#}))),
               VelErrMS
                 (Some (sampleMean (image_mset velMagError {#d \<in># mset data. deltaTime d = k#})))
                 (Some (if size {#d \<in># mset data. deltaTime d = k#} = 1 then 0
                        else sampleStdDev (image_mset velMagError {#d \<in># mset data. deltaTime d = k#}))),
               VelErrDeg
                 (Some (sampleMean (image_mset velAngError {#d \<in># mset data. deltaTime d = k#})))
                 (Some (if size {#d \<in># mset data. deltaTime d = k#} = 1 then 0
                        else sampleStdDev (image_mset velAngError {#d \<in># mset data. deltaTime d = k#})))])"
proof -
  let ?f = "filter (\<lambda>d. deltaTime d = k) data'"
  let ?S = "{#d \<in># mset data. deltaTime d = k#}"
  have S: "mset ?f = ?S" using assms by (simp add: mset_filter)
  have e: "?f = [] \<longleftrightarrow> ?S = {#}" using S by (metis mset_zero_iff)
  have l: "length ?f = size ?S" using S by (metis size_mset)
  show ?thesis
  proof (cases "?f = []")
    case True
    then show ?thesis using e by (simp add: map_of_aggregate_empty)
  next
    case False
    have ne: "map g ?f \<noteq> []" for g :: "sampleResult \<Rightarrow> real" using False by simp
    have ms: "mset (map g ?f) = image_mset g ?S" for g :: "sampleResult \<Rightarrow> real"
      using S by (metis mset_map)
    have b: "map_of (aggregate data' []) k =
        Some \<lparr>statDeltaTime = k, statPosError = map posError ?f,
              statVelMagError = map velMagError ?f, statVelAngError = map velAngError ?f\<rparr>"
      using False by (simp add: map_of_aggregate_empty)
    have S_ne: "?S \<noteq> {#}" using False e by simp
    show ?thesis
      unfolding b
      by (simp only: option.map offsetStatistics.simps reportLines_def
          getMean_sampleMean [OF ne] getStandardDeviation_sampleStdDev [OF ne] ms length_map l
          S_ne if_False)
  qed
qed

theorem aggregation_order_independent_witness:
  "mset [\<lparr>deltaTime = 30, posError = 4, velMagError = 3, velAngError = 3\<rparr>,
         \<lparr>deltaTime = 30, posError = 2, velMagError = 1, velAngError = 1\<rparr>,
         \<lparr>deltaTime = 10, posError = 1, velMagError = 1, velAngError = 1\<rparr>]
   = mset [\<lparr>deltaTime = 30, posError = 2, velMagError = 1, velAngError = 1\<rparr>,
           \<lparr>deltaTime = 10, posError = 1, velMagError = 1, velAngError = 1\<rparr>,
           \<lparr>deltaTime = 30, posError = 4, velMagError = 3, velAngError = 3\<rparr>]
   \<and> map_option reportLines (map_of (aggregate
         [\<lparr>deltaTime = 30, posError = 4, velMagError = 3, velAngError = 3\<rparr>,
          \<lparr>deltaTime = 30, posError = 2, velMagError = 1, velAngError = 1\<rparr>,
          \<lparr>deltaTime = 10, posError = 1, velMagError = 1, velAngError = 1\<rparr>] []) 30)
     = Some [DeltaTimeLine 30, PosErrM (Some 3) (Some (sqrt 2)), VelErrMS (Some 2) (Some (sqrt 2)),
          VelErrDeg (Some 2) (Some (sqrt 2))]
   \<and> map_option reportLines (map_of (aggregate
         [\<lparr>deltaTime = 30, posError = 2, velMagError = 1, velAngError = 1\<rparr>,
          \<lparr>deltaTime = 10, posError = 1, velMagError = 1, velAngError = 1\<rparr>,
          \<lparr>deltaTime = 30, posError = 4, velMagError = 3, velAngError = 3\<rparr>] []) 30)
     = Some [DeltaTimeLine 30, PosErrM (Some 3) (Some (sqrt 2)), VelErrMS (Some 2) (Some (sqrt 2)),
          VelErrDeg (Some 2) (Some (sqrt 2))]"
proof -
  have h: "mset [\<lparr>deltaTime = 30, posError = 4, velMagError = 3, velAngError = 3\<rparr>,
         \<lparr>deltaTime = 30, posError = 2, velMagError = 1, velAngError = 1\<rparr>,
         \<lparr>deltaTime = 10, posError = 1, velMagError = 1, velAngError = (1::real)\<rparr>]
   = mset [\<lparr>deltaTime = 30, posError = 2, velMagError = 1, velAngError = 1\<rparr>,
           \<lparr>deltaTime = 10, posError = 1, velMagError = 1, velAngError = 1\<rparr>,
           \<lparr>deltaTime = 30, posError = 4, velMagError = 3, velAngError = 3\<rparr>]"
    by simp
  have r: "mset [\<lparr>deltaTime = 30, posError = 2, velMagError = 1, velAngError = 1\<rparr>,
         \<lparr>deltaTime = 10, posError = 1, velMagError = 1, velAngError = 1\<rparr>,
         \<lparr>deltaTime = 30, posError = 4, velMagError = 3, velAngError = (3::real)\<rparr>]
   = mset [\<lparr>deltaTime = 30, posError = 2, velMagError = 1, velAngError = 1\<rparr>,
           \<lparr>deltaTime = 10, posError = 1, velMagError = 1, velAngError = 1\<rparr>,
           \<lparr>deltaTime = 30, posError = 4, velMagError = 3, velAngError = 3\<rparr>]"
    by simp
  have f: "{#d \<in># mset [\<lparr>deltaTime = 30, posError = 2, velMagError = 1, velAngError = 1\<rparr>,
           \<lparr>deltaTime = 10, posError = 1, velMagError = 1, velAngError = 1\<rparr>,
           \<lparr>deltaTime = 30, posError = 4, velMagError = 3, velAngError = 3\<rparr>]. deltaTime d = 30#}
         = {#\<lparr>deltaTime = 30, posError = 2, velMagError = 1, velAngError = 1\<rparr>,
             \<lparr>deltaTime = 30, posError = 4, velMagError = 3, velAngError = 3\<rparr>#}"
    by simp
  show ?thesis
    using h aggregation_order_independent [OF h, of 30] aggregation_order_independent [OF r, of 30]
    unfolding f
    by (simp add: sampleMean_def sampleStdDev_def)
qed

subsection \<open>Two epochs, one offset\<close>

text \<open>
  C7. Two reference epochs contribute one sample each at offset 30, with position errors
  2 and 4. The dictionary then has the single bucket 30, the mean of its position errors
  is 3, and its report line carries that mean (with the standard deviation, the square
  root of 2).
\<close>

theorem two_epochs_mean:
  "map fst (aggregate [\<lparr>deltaTime = 30, posError = 4, velMagError = v2, velAngError = a2\<rparr>]
             (aggregate [\<lparr>deltaTime = 30, posError = 2, velMagError = v1, velAngError = a1\<rparr>] []))
     = [30]
   \<and> map_option (\<lambda>r. (statDeltaTime r, getMean (statPosError r), reportLines r ! 1))
        (map_of (aggregate [\<lparr>deltaTime = 30, posError = 4, velMagError = v2, velAngError = a2\<rparr>]
           (aggregate [\<lparr>deltaTime = 30, posError = 2, velMagError = v1, velAngError = a1\<rparr>] []))
           30)
     = Some (30, Some 3, PosErrM (Some 3) (Some (sqrt 2)))"
  by (simp add: addSample_def Let_def DescriptiveStatistics_def addValue_def getMean_def getN_def
      reportLines_def getStandardDeviation_def getVariance_def)

subsection \<open>The keys of the dictionary\<close>




lemma keys_aggregate_fresh:
  "distinct (map fst results @ map deltaTime data)
   \<Longrightarrow> map fst (aggregate data results) = map fst results @ map deltaTime data"
proof (induction data arbitrary: results)
  case Nil
  show ?case by simp
next
  case (Cons d data)
  from Cons.prems have d: "deltaTime d \<notin> fst ` set results" by auto
  have k: "map fst (addSample d results) = map fst results @ [deltaTime d]"
    using d by (simp add: keys_addSample)
  have "distinct (map fst (addSample d results) @ map deltaTime data)"
    using Cons.prems by (simp add: k)
  from Cons.IH [OF this] show ?case by (simp add: k)
qed


subsection \<open>The offsets of the samples\<close>

lemma insertKeys_append: "insertKeys ks (xs @ ys) = insertKeys (insertKeys ks xs) ys"
  by (induction xs arbitrary: ks) simp_all

lemma set_insertKeys: "set (insertKeys ks xs) = set ks \<union> set xs"
  by (induction xs arbitrary: ks) auto

lemma insertKeys_known: "set xs \<subseteq> set ks \<Longrightarrow> insertKeys ks xs = ks"
  by (induction xs arbitrary: ks) simp_all

lemma insertKeys_fresh: "distinct (ks @ xs) \<Longrightarrow> insertKeys ks xs = ks @ xs"
proof (induction xs arbitrary: ks)
  case Nil
  show ?case by simp
next
  case (Cons x xs)
  from Cons.prems have x: "x \<notin> set ks" by auto
  have "distinct ((ks @ [x]) @ xs)" using Cons.prems by simp
  from Cons.IH [OF this] show ?case using x by simp
qed

text \<open>The keys of the dictionary are the offsets of the samples in the order of their first arrival.\<close>

lemma keys_aggregate_insertKeys:
  "map fst (aggregate data results) = insertKeys (map fst results) (map deltaTime data)"
proof (induction data arbitrary: results)
  case Nil
  show ?case by simp
next
  case (Cons d data)
  have "deltaTime d \<in> fst ` set results \<longleftrightarrow> deltaTime d \<in> set (map fst results)" by simp
  then show ?case by (simp add: Cons.IH keys_addSample)
qed


text \<open>
  The offsets that Python computes from the step 0.1, at a reference epoch on a whole second
  and at one that lies 0.3 seconds after a whole second.
\<close>

lemma normalised_rest: "normalised \<lparr>epoch = 0, offset = double_0_3\<rparr>"
proof -
  have b: "binary64 (double_0_3) = double_0_3"
    by (rule binary64_eqI [where k = "- 2" and n = "5404319552844595"])
      (simp_all add: pow2_def roundHalfEven_def Let_def)
  show ?thesis
    unfolding normalised_def absoluteDate.simps b
    by simp
qed

lemma shiftedBy_origin_tenth_1:
  "shiftedBy \<lparr>epoch = 0, offset = 0\<rparr> double_0_1 = \<lparr>epoch = 0, offset = double_0_1\<rparr>"
proof -
  have s1: "binary64 (0 + double_0_1) = double_0_1"
    by (rule binary64_eqI [where k = "- 4" and n = "7205759403792794"])
      (simp_all add: pow2_def roundHalfEven_def Let_def)
  have s2: "binary64 (double_0_1 - double_0_1) = 0"
    by (simp add: binary64_0)
  have s3: "binary64 (double_0_1 - 0) = double_0_1"
    by (rule binary64_eqI [where k = "- 4" and n = "7205759403792794"])
      (simp_all add: pow2_def roundHalfEven_def Let_def)
  have s4: "binary64 (0 - 0) = 0"
    by (simp add: binary64_0)
  have s5: "binary64 (double_0_1 - double_0_1) = 0"
    by (simp add: binary64_0)
  have s6: "binary64 (0 + 0) = 0"
    by (simp add: binary64_0)
  have s7: "\<lfloor>double_0_1 :: real\<rfloor> = 0"
    by simp
  have s8: "binary64 (real_of_int 0) = 0"
    by (simp add: binary64_0)
  have s9: "binary64 (double_0_1 - 0) = double_0_1"
    by (rule binary64_eqI [where k = "- 4" and n = "7205759403792794"])
      (simp_all add: pow2_def roundHalfEven_def Let_def)
  have s10: "binary64 (double_0_1 + 0) = double_0_1"
    by (rule binary64_eqI [where k = "- 4" and n = "7205759403792794"])
      (simp_all add: pow2_def roundHalfEven_def Let_def)
  show ?thesis
    unfolding shiftedBy_def Let_def absoluteDate.simps s1 s2 s3 s4 s5 s6 s7 s8 s9 s10
    by simp
qed

lemma durationFrom_origin_tenth_1:
  "durationFrom \<lparr>epoch = 0, offset = double_0_1\<rparr> \<lparr>epoch = 0, offset = 0\<rparr> = double_0_1"
proof -
  have d1: "binary64 (real_of_int (0 - 0)) = 0"
    by (simp add: binary64_0)
  have d2: "binary64 (double_0_1 - 0) = double_0_1"
    by (rule binary64_eqI [where k = "- 4" and n = "7205759403792794"])
      (simp_all add: pow2_def roundHalfEven_def Let_def)
  have d3: "binary64 (0 + double_0_1) = double_0_1"
    by (rule binary64_eqI [where k = "- 4" and n = "7205759403792794"])
      (simp_all add: pow2_def roundHalfEven_def Let_def)
  show ?thesis
    unfolding durationFrom_def absoluteDate.simps d1 d2 d3
    by simp
qed

lemma testOffset_origin_tenth_1:
  "testOffset \<lparr>epoch = 0, offset = 0\<rparr> double_0_1 1 = double_0_1"
proof -
  have t1: "binary64 (real_of_int 1) = 1"
    by (rule binary64_eqI [where k = "0" and n = "4503599627370496"])
      (simp_all add: pow2_def roundHalfEven_def Let_def)
  have t2: "binary64 (1 * double_0_1) = double_0_1"
    by (rule binary64_eqI [where k = "- 4" and n = "7205759403792794"])
      (simp_all add: pow2_def roundHalfEven_def Let_def)
  show ?thesis
    unfolding testOffset_def t1 t2 shiftedBy_origin_tenth_1 durationFrom_origin_tenth_1
    by simp
qed

lemma shiftedBy_origin_tenth_2:
  "shiftedBy \<lparr>epoch = 0, offset = 0\<rparr> double_0_2 = \<lparr>epoch = 0, offset = double_0_2\<rparr>"
proof -
  have s1: "binary64 (0 + double_0_2) = double_0_2"
    by (rule binary64_eqI [where k = "- 3" and n = "7205759403792794"])
      (simp_all add: pow2_def roundHalfEven_def Let_def)
  have s2: "binary64 (double_0_2 - double_0_2) = 0"
    by (simp add: binary64_0)
  have s3: "binary64 (double_0_2 - 0) = double_0_2"
    by (rule binary64_eqI [where k = "- 3" and n = "7205759403792794"])
      (simp_all add: pow2_def roundHalfEven_def Let_def)
  have s4: "binary64 (0 - 0) = 0"
    by (simp add: binary64_0)
  have s5: "binary64 (double_0_2 - double_0_2) = 0"
    by (simp add: binary64_0)
  have s6: "binary64 (0 + 0) = 0"
    by (simp add: binary64_0)
  have s7: "\<lfloor>double_0_2 :: real\<rfloor> = 0"
    by simp
  have s8: "binary64 (real_of_int 0) = 0"
    by (simp add: binary64_0)
  have s9: "binary64 (double_0_2 - 0) = double_0_2"
    by (rule binary64_eqI [where k = "- 3" and n = "7205759403792794"])
      (simp_all add: pow2_def roundHalfEven_def Let_def)
  have s10: "binary64 (double_0_2 + 0) = double_0_2"
    by (rule binary64_eqI [where k = "- 3" and n = "7205759403792794"])
      (simp_all add: pow2_def roundHalfEven_def Let_def)
  show ?thesis
    unfolding shiftedBy_def Let_def absoluteDate.simps s1 s2 s3 s4 s5 s6 s7 s8 s9 s10
    by simp
qed

lemma durationFrom_origin_tenth_2:
  "durationFrom \<lparr>epoch = 0, offset = double_0_2\<rparr> \<lparr>epoch = 0, offset = 0\<rparr> = double_0_2"
proof -
  have d1: "binary64 (real_of_int (0 - 0)) = 0"
    by (simp add: binary64_0)
  have d2: "binary64 (double_0_2 - 0) = double_0_2"
    by (rule binary64_eqI [where k = "- 3" and n = "7205759403792794"])
      (simp_all add: pow2_def roundHalfEven_def Let_def)
  have d3: "binary64 (0 + double_0_2) = double_0_2"
    by (rule binary64_eqI [where k = "- 3" and n = "7205759403792794"])
      (simp_all add: pow2_def roundHalfEven_def Let_def)
  show ?thesis
    unfolding durationFrom_def absoluteDate.simps d1 d2 d3
    by simp
qed

lemma testOffset_origin_tenth_2:
  "testOffset \<lparr>epoch = 0, offset = 0\<rparr> double_0_1 2 = double_0_2"
proof -
  have t1: "binary64 (real_of_int 2) = 2"
    by (rule binary64_eqI [where k = "1" and n = "4503599627370496"])
      (simp_all add: pow2_def roundHalfEven_def Let_def)
  have t2: "binary64 (2 * double_0_1) = double_0_2"
    by (rule binary64_eqI [where k = "- 3" and n = "7205759403792794"])
      (simp_all add: pow2_def roundHalfEven_def Let_def)
  show ?thesis
    unfolding testOffset_def t1 t2 shiftedBy_origin_tenth_2 durationFrom_origin_tenth_2
    by simp
qed

lemma shiftedBy_rest_tenth_1:
  "shiftedBy \<lparr>epoch = 0, offset = double_0_3\<rparr> double_0_1 = \<lparr>epoch = 0, offset = 3602879701896397 / 9007199254740992\<rparr>"
proof -
  have s1: "binary64 (double_0_3 + double_0_1) = 3602879701896397 / 9007199254740992"
    by (rule binary64_eqI [where k = "- 2" and n = "7205759403792794"])
      (simp_all add: pow2_def roundHalfEven_def Let_def)
  have s2: "binary64 ((3602879701896397 / 9007199254740992) - double_0_1) = 1351079888211149 / 4503599627370496"
    by (rule binary64_eqI [where k = "- 2" and n = "5404319552844596"])
      (simp_all add: pow2_def roundHalfEven_def Let_def)
  have s3: "binary64 ((3602879701896397 / 9007199254740992) - (1351079888211149 / 4503599627370496)) = 900719925474099 / 9007199254740992"
    by (rule binary64_eqI [where k = "- 4" and n = "7205759403792792"])
      (simp_all add: pow2_def roundHalfEven_def Let_def)
  have s4: "binary64 (double_0_3 - (1351079888211149 / 4503599627370496)) = - (1 / 18014398509481984)"
    by (rule binary64_eqI [where k = "- 54" and n = "- 4503599627370496"])
      (simp_all add: pow2_def roundHalfEven_def Let_def)
  have s5: "binary64 (double_0_1 - (900719925474099 / 9007199254740992)) = 1 / 36028797018963968"
    by (rule binary64_eqI [where k = "- 55" and n = "4503599627370496"])
      (simp_all add: pow2_def roundHalfEven_def Let_def)
  have s6: "binary64 ((- (1 / 18014398509481984)) + (1 / 36028797018963968)) = - (1 / 36028797018963968)"
    by (rule binary64_eqI [where k = "- 55" and n = "- 4503599627370496"])
      (simp_all add: pow2_def roundHalfEven_def Let_def)
  have s7: "\<lfloor>3602879701896397 / 9007199254740992 :: real\<rfloor> = 0"
    by simp
  have s8: "binary64 (real_of_int 0) = 0"
    by (simp add: binary64_0)
  have s9: "binary64 ((3602879701896397 / 9007199254740992) - 0) = 3602879701896397 / 9007199254740992"
    by (rule binary64_eqI [where k = "- 2" and n = "7205759403792794"])
      (simp_all add: pow2_def roundHalfEven_def Let_def)
  have s10: "binary64 ((3602879701896397 / 9007199254740992) + (- (1 / 36028797018963968))) = 3602879701896397 / 9007199254740992"
    by (rule binary64_eqI [where k = "- 2" and n = "7205759403792794"])
      (simp_all add: pow2_def roundHalfEven_def Let_def)
  show ?thesis
    unfolding shiftedBy_def Let_def absoluteDate.simps s1 s2 s3 s4 s5 s6 s7 s8 s9 s10
    by simp
qed

lemma durationFrom_rest_tenth_1:
  "durationFrom \<lparr>epoch = 0, offset = 3602879701896397 / 9007199254740992\<rparr> \<lparr>epoch = 0, offset = double_0_3\<rparr> = double_0_10000000000000003"
proof -
  have d1: "binary64 (real_of_int (0 - 0)) = 0"
    by (simp add: binary64_0)
  have d2: "binary64 ((3602879701896397 / 9007199254740992) - double_0_3) = double_0_10000000000000003"
    by (rule binary64_eqI [where k = "- 4" and n = "7205759403792796"])
      (simp_all add: pow2_def roundHalfEven_def Let_def)
  have d3: "binary64 (0 + double_0_10000000000000003) = double_0_10000000000000003"
    by (rule binary64_eqI [where k = "- 4" and n = "7205759403792796"])
      (simp_all add: pow2_def roundHalfEven_def Let_def)
  show ?thesis
    unfolding durationFrom_def absoluteDate.simps d1 d2 d3
    by simp
qed

lemma testOffset_rest_tenth_1:
  "testOffset \<lparr>epoch = 0, offset = double_0_3\<rparr> double_0_1 1 = double_0_10000000000000003"
proof -
  have t1: "binary64 (real_of_int 1) = 1"
    by (rule binary64_eqI [where k = "0" and n = "4503599627370496"])
      (simp_all add: pow2_def roundHalfEven_def Let_def)
  have t2: "binary64 (1 * double_0_1) = double_0_1"
    by (rule binary64_eqI [where k = "- 4" and n = "7205759403792794"])
      (simp_all add: pow2_def roundHalfEven_def Let_def)
  show ?thesis
    unfolding testOffset_def t1 t2 shiftedBy_rest_tenth_1 durationFrom_rest_tenth_1
    by simp
qed

lemma shiftedBy_rest_tenth_2:
  "shiftedBy \<lparr>epoch = 0, offset = double_0_3\<rparr> double_0_2 = \<lparr>epoch = 0, offset = 1 / 2\<rparr>"
proof -
  have s1: "binary64 (double_0_3 + double_0_2) = 1 / 2"
    by (rule binary64_eqI [where k = "- 1" and n = "4503599627370496"])
      (simp_all add: pow2_def roundHalfEven_def Let_def)
  have s2: "binary64 ((1 / 2) - double_0_2) = double_0_3"
    by (rule binary64_eqI [where k = "- 2" and n = "5404319552844595"])
      (simp_all add: pow2_def roundHalfEven_def Let_def)
  have s3: "binary64 ((1 / 2) - double_0_3) = double_0_2"
    by (rule binary64_eqI [where k = "- 3" and n = "7205759403792794"])
      (simp_all add: pow2_def roundHalfEven_def Let_def)
  have s4: "binary64 (double_0_3 - double_0_3) = 0"
    by (simp add: binary64_0)
  have s5: "binary64 (double_0_2 - double_0_2) = 0"
    by (simp add: binary64_0)
  have s6: "binary64 (0 + 0) = 0"
    by (simp add: binary64_0)
  have s7: "\<lfloor>1 / 2 :: real\<rfloor> = 0"
    by simp
  have s8: "binary64 (real_of_int 0) = 0"
    by (simp add: binary64_0)
  have s9: "binary64 ((1 / 2) - 0) = 1 / 2"
    by (rule binary64_eqI [where k = "- 1" and n = "4503599627370496"])
      (simp_all add: pow2_def roundHalfEven_def Let_def)
  have s10: "binary64 ((1 / 2) + 0) = 1 / 2"
    by (rule binary64_eqI [where k = "- 1" and n = "4503599627370496"])
      (simp_all add: pow2_def roundHalfEven_def Let_def)
  show ?thesis
    unfolding shiftedBy_def Let_def absoluteDate.simps s1 s2 s3 s4 s5 s6 s7 s8 s9 s10
    by simp
qed

lemma durationFrom_rest_tenth_2:
  "durationFrom \<lparr>epoch = 0, offset = 1 / 2\<rparr> \<lparr>epoch = 0, offset = double_0_3\<rparr> = double_0_2"
proof -
  have d1: "binary64 (real_of_int (0 - 0)) = 0"
    by (simp add: binary64_0)
  have d2: "binary64 ((1 / 2) - double_0_3) = double_0_2"
    by (rule binary64_eqI [where k = "- 3" and n = "7205759403792794"])
      (simp_all add: pow2_def roundHalfEven_def Let_def)
  have d3: "binary64 (0 + double_0_2) = double_0_2"
    by (rule binary64_eqI [where k = "- 3" and n = "7205759403792794"])
      (simp_all add: pow2_def roundHalfEven_def Let_def)
  show ?thesis
    unfolding durationFrom_def absoluteDate.simps d1 d2 d3
    by simp
qed

lemma testOffset_rest_tenth_2:
  "testOffset \<lparr>epoch = 0, offset = double_0_3\<rparr> double_0_1 2 = double_0_2"
proof -
  have t1: "binary64 (real_of_int 2) = 2"
    by (rule binary64_eqI [where k = "1" and n = "4503599627370496"])
      (simp_all add: pow2_def roundHalfEven_def Let_def)
  have t2: "binary64 (2 * double_0_1) = double_0_2"
    by (rule binary64_eqI [where k = "- 3" and n = "7205759403792794"])
      (simp_all add: pow2_def roundHalfEven_def Let_def)
  show ?thesis
    unfolding testOffset_def t1 t2 shiftedBy_rest_tenth_2 durationFrom_rest_tenth_2
    by simp
qed

lemma upto_0_2: "[0..(2::int)] = [0, 1, 2]"
  by (simp add: upto.simps)







subsection \<open>The order of the report\<close>

lemma printedDeltaTimes_append:
  "printedDeltaTimes (xs @ ys) = printedDeltaTimes xs @ printedDeltaTimes ys"
  by (simp add: printedDeltaTimes_def)

lemma printedDeltaTimes_reportLines: "printedDeltaTimes (reportLines r) = [statDeltaTime r]"
  by (simp add: printedDeltaTimes_def reportLines_def)

lemma printedDeltaTimes_buckets:
  "printedDeltaTimes (concat (map reportLines rs)) = map statDeltaTime rs"
  by (induction rs) (simp_all add: printedDeltaTimes_append printedDeltaTimes_reportLines,
      simp add: printedDeltaTimes_def)

lemma testPoint_stdout:
  assumes "testPoint clock pvProv ctx iF ecef baseline date verb point w = Inr (r, e, a, w')"
  shows "\<exists>p. stdout w' = stdout w @ p \<and> printedDeltaTimes p = []"
  using assms
  by (auto simp add: testPoint_def Let_def printedDeltaTimes_def split: sum.splits)

lemma checkLoop_stdout:
  "checkLoop clock pvProv ctx iF ecef baseline date verb pts (res, e, a, w) = Inr (res', e', a', w')
   \<Longrightarrow> \<exists>p. stdout w' = stdout w @ p \<and> printedDeltaTimes p = []"
proof (induction pts arbitrary: res e a w)
  case Nil
  then show ?case by (simp add: printedDeltaTimes_def)
next
  case (Cons p pts)
  from Cons.prems obtain r e0 a0 w1 where
    tp: "testPoint clock pvProv ctx iF ecef baseline date verb p w = Inr (r, e0, a0, w1)"
    and rest: "checkLoop clock pvProv ctx iF ecef baseline date verb pts
                 (res @ [r], e + e0, a + a0, w1) = Inr (res', e', a', w')"
    by (auto split: sum.splits)
  from testPoint_stdout [OF tp] obtain p1 where
    p1: "stdout w1 = stdout w @ p1" "printedDeltaTimes p1 = []" by blast
  from Cons.IH [OF rest] obtain p2 where
    p2: "stdout w' = stdout w1 @ p2" "printedDeltaTimes p2 = []" by blast
  have "stdout w' = stdout w @ (p1 @ p2)" using p1 p2 by simp
  moreover have "printedDeltaTimes (p1 @ p2) = []"
    using p1 p2 by (simp add: printedDeltaTimes_append)
  ultimately show ?case by blast
qed

lemma checkSample_stdout:
  assumes "checkSample clock date pvProv ctx fr numTests testStep verb w
           = Inr (results, estTime, actTime, w')"
  shows "\<exists>p. stdout w' = stdout w @ p \<and> printedDeltaTimes p = []"
  using assms
  by (auto simp add: checkSample_def Let_def dest: checkLoop_stdout)

lemma set_setitem: "set (setitem k v results) \<subseteq> insert (k, v) (set results)"
  by (induction results) (auto split: if_splits)

lemma keyed_setitem:
  assumes "statDeltaTime v = k" and "keyed results"
  shows "keyed (setitem k v results)"
  unfolding keyed_def
proof
  fix kv assume "kv \<in> set (setitem k v results)"
  then have "kv = (k, v) \<or> kv \<in> set results" using set_setitem by fastforce
  then show "statDeltaTime (snd kv) = fst kv"
    using assms by (auto simp add: keyed_def)
qed

lemma keyed_lookup:
  assumes "keyed results" and "map_of results k = Some r"
  shows "statDeltaTime r = k"
proof -
  from assms(2) have "(k, r) \<in> set results" by (rule map_of_SomeD)
  with assms(1) show ?thesis by (auto simp add: keyed_def)
qed

lemma keyed_addSample:
  assumes "keyed results"
  shows "keyed (addSample d results)"
proof (cases "map_of results (deltaTime d)")
  case None
  then show ?thesis
    by (simp add: addSample_def Let_def keyed_setitem [OF _ assms])
next
  case (Some r)
  have "statDeltaTime r = deltaTime d" using assms Some by (rule keyed_lookup)
  then show ?thesis
    by (simp add: addSample_def Let_def Some keyed_setitem [OF _ assms])
qed

lemma keyed_aggregate: "keyed results \<Longrightarrow> keyed (aggregate data results)"
  by (induction data arbitrary: results) (simp_all add: keyed_addSample)

lemma keyed_empty: "keyed []"
  by (simp add: keyed_def)

text \<open>The offsets announced by the lines of the buckets are the keys, in the order of the dictionary.\<close>

lemma printedDeltaTimes_reportBody:
  assumes "keyed results"
  shows "printedDeltaTimes (reportBody results) = map fst results"
proof -
  have "map statDeltaTime (map snd results) = map fst results"
    using assms by (simp add: keyed_def)
  then show ?thesis
    by (simp only: reportBody_def printedDeltaTimes_buckets)
qed

lemma insertKeys_repeat:
  assumes "distinct K" and "\<forall>xs\<in>set xss. xs = K" and "xss \<noteq> []"
  shows "insertKeys [] (concat xss) = K"
proof -
  from assms(3) obtain xs rest where x: "xss = xs # rest" by (cases xss) auto
  have h: "xs = K" and r: "\<forall>ys\<in>set rest. ys = K" using assms(2) by (simp_all add: x)
  have "set (concat rest) \<subseteq> set K" using r by auto
  then have k: "insertKeys K (concat rest) = K" by (rule insertKeys_known)
  have "distinct ([] @ K)" using assms(1) by simp
  then have f: "insertKeys [] K = [] @ K" by (rule insertKeys_fresh)
  show ?thesis
    by (simp add: x h insertKeys_append f k)
qed

text \<open>
  The loop of \<open>main\<close> prints no offset line, and the keys it leaves in the dictionary are
  the recorded offsets of the reference epochs in the order of their first arrival.
\<close>

lemma mainLoop_keys:
  assumes "mainLoop clock prop ctx a iF dates (results, e, t, w) = Inr (results', e', t', w')"
    and "keyed results"
  shows "(\<exists>p. stdout w' = stdout w @ p \<and> printedDeltaTimes p = [])
         \<and> keyed results'
         \<and> map fst results'
             = insertKeys (map fst results) (concat (map (\<lambda>d. recordedOffsets d a) dates))"
  using assms
proof (induction dates arbitrary: results e t w)
  case Nil
  then show ?case by (simp add: printedDeltaTimes_def)
next
  case (Cons date rest)
  from Cons.prems(1) obtain data eT aT w1 where
    cs: "checkSample clock date prop ctx (Some iF) (tests_per_sample a) (test_step a) (verbose a) w
           = Inr (data, eT, aT, w1)"
    and rest: "mainLoop clock prop ctx a iF rest (aggregate data results, e + eT, t + aT, w1)
           = Inr (results', e', t', w')"
    by (auto split: sum.splits)
  have dk: "map deltaTime data = recordedOffsets date a"
    using checkSample_deltaTimes [OF cs] by (simp add: recordedOffsets_def)
  have keys1: "map fst (aggregate data results)
                 = insertKeys (map fst results) (recordedOffsets date a)"
    by (simp only: keys_aggregate_insertKeys dk)
  have keyed1: "keyed (aggregate data results)"
    using Cons.prems(2) by (rule keyed_aggregate)
  from Cons.IH [OF rest keyed1] have
    ih1: "\<exists>p. stdout w' = stdout w1 @ p \<and> printedDeltaTimes p = []"
    and ih2: "keyed results'"
    and ih3: "map fst results'
         = insertKeys (map fst (aggregate data results))
             (concat (map (\<lambda>d. recordedOffsets d a) rest))"
    by simp_all
  from checkSample_stdout [OF cs] obtain p1 where
    p1: "stdout w1 = stdout w @ p1" "printedDeltaTimes p1 = []" by blast
  from ih1 obtain p2 where
    p2: "stdout w' = stdout w1 @ p2" "printedDeltaTimes p2 = []" by blast
  have "stdout w' = stdout w @ (p1 @ p2)" using p1 p2 by simp
  moreover have "printedDeltaTimes (p1 @ p2) = []"
    using p1 p2 by (simp add: printedDeltaTimes_append)
  ultimately have o: "\<exists>p. stdout w' = stdout w @ p \<and> printedDeltaTimes p = []" by blast
  have k: "map fst results'
         = insertKeys (map fst results)
             (concat (map (\<lambda>d. recordedOffsets d a) (date # rest)))"
    by (simp add: ih3 keys1 insertKeys_append)
  from o ih2 k show ?case by (intro conjI)
qed

lemma main_referenceEpochs:
  "main clock tleDate propagator ctx a w =
     (case mainLoop clock propagator ctx a
             (if inertial_frame a = ''j2000'' then EME2000 else GCRF)
             (referenceEpochs tleDate a) ([], 0, 0, w) of
        Inl e \<Rightarrow> Inl e
      | Inr (results, estimateTime, actualTime, w') \<Rightarrow>
          report results estimateTime actualTime w')"
  by (simp add: main_def referenceEpochs_def Let_def)

lemma first_epoch:
  "normalised d \<Longrightarrow> shiftedBy d (binary64 (binary64 (binary64 (real_of_int 0) * s) * 60)) = d"
  by (simp add: binary64_0 shiftedBy_zero)

lemma upto_0_2m1: "[0..(2::int) - 1] = [0, 1]"
  by (simp add: upto.simps)

lemma shiftedBy_second_epoch_0_005:
  "shiftedBy \<lparr>epoch = 0, offset = 0\<rparr> double_0_3 = \<lparr>epoch = 0, offset = double_0_3\<rparr>"
proof -
  have s1: "binary64 (0 + double_0_3) = double_0_3"
    by (rule binary64_eqI [where k = "- 2" and n = "5404319552844595"])
      (simp_all add: pow2_def roundHalfEven_def Let_def)
  have s2: "binary64 (double_0_3 - double_0_3) = 0"
    by (simp add: binary64_0)
  have s3: "binary64 (double_0_3 - 0) = double_0_3"
    by (rule binary64_eqI [where k = "- 2" and n = "5404319552844595"])
      (simp_all add: pow2_def roundHalfEven_def Let_def)
  have s4: "binary64 (0 - 0) = 0"
    by (simp add: binary64_0)
  have s5: "binary64 (double_0_3 - double_0_3) = 0"
    by (simp add: binary64_0)
  have s6: "binary64 (0 + 0) = 0"
    by (simp add: binary64_0)
  have s7: "\<lfloor>double_0_3 :: real\<rfloor> = 0"
    by simp
  have s8: "binary64 (real_of_int 0) = 0"
    by (simp add: binary64_0)
  have s9: "binary64 (double_0_3 - 0) = double_0_3"
    by (rule binary64_eqI [where k = "- 2" and n = "5404319552844595"])
      (simp_all add: pow2_def roundHalfEven_def Let_def)
  have s10: "binary64 (double_0_3 + 0) = double_0_3"
    by (rule binary64_eqI [where k = "- 2" and n = "5404319552844595"])
      (simp_all add: pow2_def roundHalfEven_def Let_def)
  show ?thesis
    unfolding shiftedBy_def Let_def absoluteDate.simps s1 s2 s3 s4 s5 s6 s7 s8 s9 s10
    by simp
qed

lemma second_epoch_0_005:
  "shiftedBy \<lparr>epoch = 0, offset = 0\<rparr> (binary64 (binary64 (binary64 (real_of_int 1) * double_0_005) * 60)) = \<lparr>epoch = 0, offset = double_0_3\<rparr>"
proof -
  have t1: "binary64 (real_of_int 1) = 1"
    by (rule binary64_eqI [where k = "0" and n = "4503599627370496"])
      (simp_all add: pow2_def roundHalfEven_def Let_def)
  have t2: "binary64 (1 * double_0_005) = double_0_005"
    by (rule binary64_eqI [where k = "- 8" and n = "5764607523034235"])
      (simp_all add: pow2_def roundHalfEven_def Let_def)
  have t3: "binary64 (double_0_005 * 60) = double_0_3"
    by (rule binary64_eqI [where k = "- 2" and n = "5404319552844595"])
      (simp_all add: pow2_def roundHalfEven_def Let_def)
  show ?thesis
    unfolding t1 t2 t3 shiftedBy_second_epoch_0_005
    by simp
qed

lemma shiftedBy_second_epoch_15:
  "shiftedBy \<lparr>epoch = 0, offset = 0\<rparr> 900 = \<lparr>epoch = 900, offset = 0\<rparr>"
proof -
  have s1: "binary64 (0 + 900) = 900"
    by (rule binary64_eqI [where k = "9" and n = "7916483719987200"])
      (simp_all add: pow2_def roundHalfEven_def Let_def)
  have s2: "binary64 (900 - 900) = 0"
    by (simp add: binary64_0)
  have s3: "binary64 (900 - 0) = 900"
    by (rule binary64_eqI [where k = "9" and n = "7916483719987200"])
      (simp_all add: pow2_def roundHalfEven_def Let_def)
  have s4: "binary64 (0 - 0) = 0"
    by (simp add: binary64_0)
  have s5: "binary64 (900 - 900) = 0"
    by (simp add: binary64_0)
  have s6: "binary64 (0 + 0) = 0"
    by (simp add: binary64_0)
  have s7: "\<lfloor>900 :: real\<rfloor> = 900"
    by simp
  have s8: "binary64 (real_of_int 900) = 900"
    by (rule binary64_eqI [where k = "9" and n = "7916483719987200"])
      (simp_all add: pow2_def roundHalfEven_def Let_def)
  have s9: "binary64 (900 - 900) = 0"
    by (simp add: binary64_0)
  have s10: "binary64 (0 + 0) = 0"
    by (simp add: binary64_0)
  show ?thesis
    unfolding shiftedBy_def Let_def absoluteDate.simps s1 s2 s3 s4 s5 s6 s7 s8 s9 s10
    by simp
qed

lemma second_epoch_15:
  "shiftedBy \<lparr>epoch = 0, offset = 0\<rparr> (binary64 (binary64 (binary64 (real_of_int 1) * 15) * 60)) = \<lparr>epoch = 900, offset = 0\<rparr>"
proof -
  have t1: "binary64 (real_of_int 1) = 1"
    by (rule binary64_eqI [where k = "0" and n = "4503599627370496"])
      (simp_all add: pow2_def roundHalfEven_def Let_def)
  have t2: "binary64 (1 * 15) = 15"
    by (rule binary64_eqI [where k = "3" and n = "8444249301319680"])
      (simp_all add: pow2_def roundHalfEven_def Let_def)
  have t3: "binary64 (15 * 60) = 900"
    by (rule binary64_eqI [where k = "9" and n = "7916483719987200"])
      (simp_all add: pow2_def roundHalfEven_def Let_def)
  show ?thesis
    unfolding t1 t2 t3 shiftedBy_second_epoch_15
    by simp
qed

lemma referenceEpochs_0_005:
  "referenceEpochs \<lparr>epoch = 0, offset = 0\<rparr>
     \<lparr>sample_points = 2, step = double_0_005, verbose = False, inertial_frame = ''gcrf'',
      tests_per_sample = 3, test_step = double_0_1\<rparr>
   = [\<lparr>epoch = 0, offset = 0\<rparr>, \<lparr>epoch = 0, offset = double_0_3\<rparr>]"
  unfolding referenceEpochs_def args.simps upto_0_2m1 list.map
    first_epoch [OF normalised_origin] second_epoch_0_005
  by (rule refl)

lemma referenceEpochs_default_2:
  "referenceEpochs \<lparr>epoch = 0, offset = 0\<rparr> (defaultArgs\<lparr>sample_points := 2, tests_per_sample := 2\<rparr>)
   = [\<lparr>epoch = 0, offset = 0\<rparr>, \<lparr>epoch = 900, offset = 0\<rparr>]"
proof -
  have s: "sample_points (defaultArgs\<lparr>sample_points := 2, tests_per_sample := 2\<rparr>) = 2"
    "step (defaultArgs\<lparr>sample_points := 2, tests_per_sample := 2\<rparr>) = 15"
    by (simp_all add: defaultArgs_def)
  show ?thesis
    unfolding referenceEpochs_def s upto_0_2m1 list.map
      first_epoch [OF normalised_origin] second_epoch_15
    by (rule refl)
qed

lemma checkSample_polar_origin_tenth_3:
  "checkSample tickClock \<lparr>epoch = 0, offset = 0\<rparr> polarProvider identityContext fr 3 double_0_1
     False w =
     Inr ([\<lparr>deltaTime = 0, posError = 0, velMagError = 0, velAngError = 0\<rparr>,
           \<lparr>deltaTime = double_0_1, posError = 0, velMagError = 0, velAngError = 0\<rparr>,
           \<lparr>deltaTime = double_0_2, posError = 0, velMagError = 0, velAngError = 0\<rparr>],
          3, 3, \<lparr>tick = tick w + 12, stdout = stdout w\<rparr>)"
  unfolding checkSample_polar
  by (simp add: upto_0_2 testOffset_zero [OF normalised_origin] testOffset_origin_tenth_1
      testOffset_origin_tenth_2)

lemma checkSample_polar_rest_tenth_3:
  "checkSample tickClock \<lparr>epoch = 0, offset = double_0_3\<rparr> polarProvider identityContext fr 3
     double_0_1 False w =
     Inr ([\<lparr>deltaTime = 0, posError = 0, velMagError = 0, velAngError = 0\<rparr>,
           \<lparr>deltaTime = double_0_10000000000000003, posError = 0, velMagError = 0,
            velAngError = 0\<rparr>,
           \<lparr>deltaTime = double_0_2, posError = 0, velMagError = 0, velAngError = 0\<rparr>],
          3, 3, \<lparr>tick = tick w + 12, stdout = stdout w\<rparr>)"
  unfolding checkSample_polar
  by (simp add: upto_0_2 testOffset_zero [OF normalised_rest] testOffset_rest_tenth_1
      testOffset_rest_tenth_2)

lemma checkSample_polar_whole_10:
  assumes "offset date = 0"
  shows "checkSample tickClock date polarProvider identityContext fr 2 10 False w =
     Inr ([\<lparr>deltaTime = 0, posError = 0, velMagError = 0, velAngError = 0\<rparr>,
           \<lparr>deltaTime = 10, posError = 0, velMagError = 0, velAngError = 0\<rparr>],
          2, 2, \<lparr>tick = tick w + 8, stdout = stdout w\<rparr>)"
proof -
  have o: "offset date = offset \<lparr>epoch = 0, offset = 0\<rparr>"
    using assms by simp
  have t: "testOffset date 10 i = testOffset \<lparr>epoch = 0, offset = 0\<rparr> 10 i" for i
    using o by (rule testOffset_offset_only)
  show ?thesis
    unfolding checkSample_polar
    by (simp add: upto_0_1 t testOffset_zero [OF normalised_origin] testOffset_origin_10_1)
qed

lemma reportLines_zeros:
  "reportLines \<lparr>statDeltaTime = d, statPosError = [0, 0], statVelMagError = [0, 0],
                statVelAngError = [0, 0]\<rparr>
     = [DeltaTimeLine d, PosErrM (Some 0) (Some 0), VelErrMS (Some 0) (Some 0),
        VelErrDeg (Some 0) (Some 0)]"
  by (simp add: reportLines_def getMean_def getStandardDeviation_def getVariance_def getN_def)

lemma reportLines_zero:
  "reportLines \<lparr>statDeltaTime = d, statPosError = [0], statVelMagError = [0],
                statVelAngError = [0]\<rparr>
     = [DeltaTimeLine d, PosErrM (Some 0) (Some 0), VelErrMS (Some 0) (Some 0),
        VelErrDeg (Some 0) (Some 0)]"
  by (simp add: reportLines_def getMean_def getStandardDeviation_def getVariance_def getN_def)

text \<open>
  C9, a run that refutes it. With two reference epochs 0.005 minutes apart (Python computes
  \<^verbatim>\<open>1 * 0.005 * 60\<close> as 0.3), three tests and the test step 0.1, the first epoch records
  the offsets 0, 0.1 and 0.2 and the second 0, 0.10000000000000003 and 0.2. The run
  completes and its report announces four offsets in the order 0, 0.1, 0.2,
  0.10000000000000003: the last is smaller than the one before it.
\<close>

theorem report_offsets_not_ascending:
  "main tickClock \<lparr>epoch = 0, offset = 0\<rparr> polarProvider identityContext
     \<lparr>sample_points = 2, step = double_0_005, verbose = False, inertial_frame = ''gcrf'',
      tests_per_sample = 3, test_step = double_0_1\<rparr> startIo
   = Inr \<lparr>tick = 24,
          stdout =
            [DeltaTimeLine 0, PosErrM (Some 0) (Some 0), VelErrMS (Some 0) (Some 0),
             VelErrDeg (Some 0) (Some 0),
             DeltaTimeLine double_0_1, PosErrM (Some 0) (Some 0), VelErrMS (Some 0) (Some 0),
             VelErrDeg (Some 0) (Some 0),
             DeltaTimeLine double_0_2, PosErrM (Some 0) (Some 0), VelErrMS (Some 0) (Some 0),
             VelErrDeg (Some 0) (Some 0),
             DeltaTimeLine double_0_10000000000000003, PosErrM (Some 0) (Some 0),
             VelErrMS (Some 0) (Some 0), VelErrDeg (Some 0) (Some 0),
             Blank, TotalTime, HighFidelity 6, Estimated 6, PercentImprovement 0]\<rparr>
   \<and> double_0_10000000000000003 < double_0_2"
proof -
  have m: "main tickClock \<lparr>epoch = 0, offset = 0\<rparr> polarProvider identityContext
     \<lparr>sample_points = 2, step = double_0_005, verbose = False, inertial_frame = ''gcrf'',
      tests_per_sample = 3, test_step = double_0_1\<rparr> startIo
   = Inr \<lparr>tick = 24,
          stdout =
            [DeltaTimeLine 0, PosErrM (Some 0) (Some 0), VelErrMS (Some 0) (Some 0),
             VelErrDeg (Some 0) (Some 0),
             DeltaTimeLine double_0_1, PosErrM (Some 0) (Some 0), VelErrMS (Some 0) (Some 0),
             VelErrDeg (Some 0) (Some 0),
             DeltaTimeLine double_0_2, PosErrM (Some 0) (Some 0), VelErrMS (Some 0) (Some 0),
             VelErrDeg (Some 0) (Some 0),
             DeltaTimeLine double_0_10000000000000003, PosErrM (Some 0) (Some 0),
             VelErrMS (Some 0) (Some 0), VelErrDeg (Some 0) (Some 0),
             Blank, TotalTime, HighFidelity 6, Estimated 6, PercentImprovement 0]\<rparr>"
    unfolding main_referenceEpochs referenceEpochs_0_005
    by (simp add: checkSample_polar_origin_tenth_3 checkSample_polar_rest_tenth_3 startIo_def
        addSample_def DescriptiveStatistics_def addValue_def report_def reportBody_def Let_def
        reportLines_zeros reportLines_zero)
  have l: "double_0_10000000000000003 < double_0_2" by simp
  from m l show ?thesis by (intro conjI)
qed

text \<open>
  C9, as the code has it. The report walks the dictionary in the order in which its keys
  were first inserted. The lines printed for the buckets therefore announce the offsets
  recorded at the first reference epoch in the order of its test points, then those
  recorded at each later epoch that had not been recorded before. When every reference
  epoch records the same strictly increasing offsets \<open>K\<close>, the announced offsets are \<open>K\<close>,
  in strictly increasing order. This holds of every run whose loop over the reference
  epochs returns, whether or not the last line of the report then raises; a run of
  \<open>main\<close> that completes has printed no other offset line.
\<close>

theorem report_offsets_insertion_order:
  assumes "mainLoop clock propagator ctx a
             (if inertial_frame a = ''j2000'' then EME2000 else GCRF)
             (referenceEpochs tleDate a) ([], 0, 0, w)
           = Inr (results, estimateTime, actualTime, w1)"
  shows "main clock tleDate propagator ctx a w = report results estimateTime actualTime w1
       \<and> printedDeltaTimes (reportBody results)
           = insertKeys [] (concat (map (\<lambda>d. recordedOffsets d a) (referenceEpochs tleDate a)))
       \<and> (referenceEpochs tleDate a \<noteq> []
            \<and> (\<forall>d\<in>set (referenceEpochs tleDate a). recordedOffsets d a = K)
            \<and> sorted_wrt (<) K
          \<longrightarrow> printedDeltaTimes (reportBody results) = K
              \<and> sorted_wrt (<) (printedDeltaTimes (reportBody results)))
       \<and> (\<forall>w'. main clock tleDate propagator ctx a w = Inr w'
            \<longrightarrow> (\<exists>p. stdout w' = stdout w @ p
                     \<and> printedDeltaTimes p = printedDeltaTimes (reportBody results)))"
proof -
  have c1: "main clock tleDate propagator ctx a w = report results estimateTime actualTime w1"
    by (simp add: main_referenceEpochs assms)
  from mainLoop_keys [OF assms keyed_empty] obtain p1 where
    p1: "stdout w1 = stdout w @ p1" "printedDeltaTimes p1 = []"
    and kd: "keyed results"
    and ks: "map fst results
       = insertKeys [] (concat (map (\<lambda>d. recordedOffsets d a) (referenceEpochs tleDate a)))"
    by auto
  have c2: "printedDeltaTimes (reportBody results)
       = insertKeys [] (concat (map (\<lambda>d. recordedOffsets d a) (referenceEpochs tleDate a)))"
    by (simp only: printedDeltaTimes_reportBody [OF kd] ks)
  have c3: "referenceEpochs tleDate a \<noteq> []
            \<and> (\<forall>d\<in>set (referenceEpochs tleDate a). recordedOffsets d a = K)
            \<and> sorted_wrt (<) K
          \<longrightarrow> printedDeltaTimes (reportBody results) = K
              \<and> sorted_wrt (<) (printedDeltaTimes (reportBody results))"
  proof
    assume h: "referenceEpochs tleDate a \<noteq> []
            \<and> (\<forall>d\<in>set (referenceEpochs tleDate a). recordedOffsets d a = K)
            \<and> sorted_wrt (<) K"
    then have d: "distinct K" by (simp add: strict_sorted_iff)
    have "insertKeys [] (concat (map (\<lambda>d. recordedOffsets d a) (referenceEpochs tleDate a))) = K"
      using h by (intro insertKeys_repeat [OF d]) auto
    then have "printedDeltaTimes (reportBody results) = K" by (simp only: c2)
    then show "printedDeltaTimes (reportBody results) = K
              \<and> sorted_wrt (<) (printedDeltaTimes (reportBody results))"
      using h by simp
  qed
  have c4: "\<forall>w'. main clock tleDate propagator ctx a w = Inr w'
            \<longrightarrow> (\<exists>p. stdout w' = stdout w @ p
                     \<and> printedDeltaTimes p = printedDeltaTimes (reportBody results))"
  proof (intro allI impI)
    fix w' assume "main clock tleDate propagator ctx a w = Inr w'"
    then have rp: "report results estimateTime actualTime w1 = Inr w'" by (simp only: c1)
    let ?tail = "[Blank, TotalTime, HighFidelity actualTime, Estimated estimateTime,
                  PercentImprovement (100 * (actualTime - estimateTime) / actualTime)]"
    from rp have out: "stdout w' = stdout w1 @ reportBody results @ ?tail"
      by (auto simp add: report_def Let_def split: if_splits)
    have 1: "stdout w' = stdout w @ (p1 @ reportBody results @ ?tail)" using out p1 by simp
    have t: "printedDeltaTimes ?tail = []" by (simp add: printedDeltaTimes_def)
    have 2: "printedDeltaTimes (p1 @ reportBody results @ ?tail)
               = printedDeltaTimes (reportBody results)"
      by (simp only: printedDeltaTimes_append p1 t) simp
    from 1 2 show "\<exists>p. stdout w' = stdout w @ p
                     \<and> printedDeltaTimes p = printedDeltaTimes (reportBody results)"
      by blast
  qed
  from c1 c2 c3 c4 show ?thesis by (intro conjI)
qed

lemma mainLoop_polar_default_2:
  "mainLoop tickClock polarProvider identityContext
     (defaultArgs\<lparr>sample_points := 2, tests_per_sample := 2\<rparr>) GCRF
     [\<lparr>epoch = 0, offset = 0\<rparr>, \<lparr>epoch = 900, offset = 0\<rparr>] ([], 0, 0, startIo)
   = Inr ([(0, \<lparr>statDeltaTime = 0, statPosError = [0, 0], statVelMagError = [0, 0],
                statVelAngError = [0, 0]\<rparr>),
           (10, \<lparr>statDeltaTime = 10, statPosError = [0, 0], statVelMagError = [0, 0],
                 statVelAngError = [0, 0]\<rparr>)],
          4, 4, \<lparr>tick = 16, stdout = []\<rparr>)"
  by (simp add: defaultArgs_def checkSample_polar_whole_10 startIo_def addSample_def
      DescriptiveStatistics_def addValue_def)

theorem report_offsets_insertion_order_witness:
  "mainLoop tickClock polarProvider identityContext
     (defaultArgs\<lparr>sample_points := 2, tests_per_sample := 2\<rparr>)
     (if inertial_frame (defaultArgs\<lparr>sample_points := 2, tests_per_sample := 2\<rparr>) = ''j2000''
      then EME2000 else GCRF)
     (referenceEpochs \<lparr>epoch = 0, offset = 0\<rparr>
        (defaultArgs\<lparr>sample_points := 2, tests_per_sample := 2\<rparr>))
     ([], 0, 0, startIo)
   = Inr ([(0, \<lparr>statDeltaTime = 0, statPosError = [0, 0], statVelMagError = [0, 0],
                statVelAngError = [0, 0]\<rparr>),
           (10, \<lparr>statDeltaTime = 10, statPosError = [0, 0], statVelMagError = [0, 0],
                 statVelAngError = [0, 0]\<rparr>)],
          4, 4, \<lparr>tick = 16, stdout = []\<rparr>)
   \<and> referenceEpochs \<lparr>epoch = 0, offset = 0\<rparr>
        (defaultArgs\<lparr>sample_points := 2, tests_per_sample := 2\<rparr>)
       = [\<lparr>epoch = 0, offset = 0\<rparr>, \<lparr>epoch = 900, offset = 0\<rparr>]
   \<and> recordedOffsets \<lparr>epoch = 0, offset = 0\<rparr>
        (defaultArgs\<lparr>sample_points := 2, tests_per_sample := 2\<rparr>) = [0, 10]
   \<and> recordedOffsets \<lparr>epoch = 900, offset = 0\<rparr>
        (defaultArgs\<lparr>sample_points := 2, tests_per_sample := 2\<rparr>) = [0, 10]
   \<and> sorted_wrt (<) [0, 10 :: real]
   \<and> main tickClock \<lparr>epoch = 0, offset = 0\<rparr> polarProvider identityContext
        (defaultArgs\<lparr>sample_points := 2, tests_per_sample := 2\<rparr>) startIo
       = Inr \<lparr>tick = 16,
              stdout =
                [DeltaTimeLine 0, PosErrM (Some 0) (Some 0), VelErrMS (Some 0) (Some 0),
                 VelErrDeg (Some 0) (Some 0),
                 DeltaTimeLine 10, PosErrM (Some 0) (Some 0), VelErrMS (Some 0) (Some 0),
                 VelErrDeg (Some 0) (Some 0),
                 Blank, TotalTime, HighFidelity 4, Estimated 4, PercentImprovement 0]\<rparr>
   \<and> printedDeltaTimes
        (reportBody
           [(0, \<lparr>statDeltaTime = 0, statPosError = [0, 0], statVelMagError = [0, 0],
                 statVelAngError = [0, 0]\<rparr>),
            (10, \<lparr>statDeltaTime = 10, statPosError = [0, 0], statVelMagError = [0, 0],
                  statVelAngError = [0, 0]\<rparr>)])
       = [0, 10]"
proof -
  let ?a = "defaultArgs\<lparr>sample_points := 2, tests_per_sample := 2\<rparr>"
  let ?dict = "[(0, \<lparr>statDeltaTime = 0, statPosError = [0, 0], statVelMagError = [0, 0],
                statVelAngError = [0, 0]\<rparr>),
           (10::real, \<lparr>statDeltaTime = 10, statPosError = [0, 0], statVelMagError = [0, 0],
                 statVelAngError = [0, 0]\<rparr>)]"
  have f: "(if inertial_frame ?a = ''j2000'' then EME2000 else GCRF) = GCRF"
    by (simp add: defaultArgs_def)
  have ml: "mainLoop tickClock polarProvider identityContext ?a
     (if inertial_frame ?a = ''j2000'' then EME2000 else GCRF)
     (referenceEpochs \<lparr>epoch = 0, offset = 0\<rparr> ?a) ([], 0, 0, startIo)
   = Inr (?dict, 4, 4, \<lparr>tick = 16, stdout = []\<rparr>)"
    unfolding f referenceEpochs_default_2 by (rule mainLoop_polar_default_2)
  have r0: "recordedOffsets \<lparr>epoch = 0, offset = 0\<rparr> ?a = [0, 10]"
    by (simp add: recordedOffsets_def defaultArgs_def upto_0_1
        testOffset_zero [OF normalised_origin] testOffset_origin_10_1)
  have t: "testOffset \<lparr>epoch = 900, offset = 0\<rparr> 10 i = testOffset \<lparr>epoch = 0, offset = 0\<rparr> 10 i"
    for i
    by (rule testOffset_offset_only) simp
  have r900: "recordedOffsets \<lparr>epoch = 900, offset = 0\<rparr> ?a = [0, 10]"
    by (simp add: recordedOffsets_def defaultArgs_def upto_0_1 t
        testOffset_zero [OF normalised_origin] testOffset_origin_10_1)
  have s: "sorted_wrt (<) [0, 10 :: real]" by simp
  have rp: "report ?dict 4 4 \<lparr>tick = 16, stdout = []\<rparr>
       = Inr \<lparr>tick = 16,
              stdout =
                [DeltaTimeLine 0, PosErrM (Some 0) (Some 0), VelErrMS (Some 0) (Some 0),
                 VelErrDeg (Some 0) (Some 0),
                 DeltaTimeLine 10, PosErrM (Some 0) (Some 0), VelErrMS (Some 0) (Some 0),
                 VelErrDeg (Some 0) (Some 0),
                 Blank, TotalTime, HighFidelity 4, Estimated 4, PercentImprovement 0]\<rparr>"
    by (simp add: report_def reportBody_def Let_def reportLines_zeros)
  have h: "referenceEpochs \<lparr>epoch = 0, offset = 0\<rparr> ?a \<noteq> []
       \<and> (\<forall>d\<in>set (referenceEpochs \<lparr>epoch = 0, offset = 0\<rparr> ?a). recordedOffsets d ?a = [0, 10])
       \<and> sorted_wrt (<) [0, 10 :: real]"
    unfolding referenceEpochs_default_2 using r0 r900 by simp
  note T = report_offsets_insertion_order [OF ml, where K = "[0, 10]"]
  have m: "main tickClock \<lparr>epoch = 0, offset = 0\<rparr> polarProvider identityContext ?a startIo
       = Inr \<lparr>tick = 16,
              stdout =
                [DeltaTimeLine 0, PosErrM (Some 0) (Some 0), VelErrMS (Some 0) (Some 0),
                 VelErrDeg (Some 0) (Some 0),
                 DeltaTimeLine 10, PosErrM (Some 0) (Some 0), VelErrMS (Some 0) (Some 0),
                 VelErrDeg (Some 0) (Some 0),
                 Blank, TotalTime, HighFidelity 4, Estimated 4, PercentImprovement 0]\<rparr>"
    using conjunct1 [OF T] rp by (simp only:)
  have p: "printedDeltaTimes (reportBody ?dict) = [0, 10]"
    using mp [OF conjunct1 [OF conjunct2 [OF conjunct2 [OF T]]] h] by (rule conjunct1)
  from ml referenceEpochs_default_2 r0 r900 s m p show ?thesis by (intro conjI)
qed

end
